theory Spec2Isabelle
  imports Main
begin

section \<open>Data model\<close>

text \<open>
  Amounts are ethers \<open>BigNumber\<close>s (unbounded integers): \<open>int\<close>.  Chain ids are
  JavaScript numbers: \<open>int\<close>.  Results read back from a contract call are
  \<open>uint256\<close> values: \<open>nat\<close>.
\<close>

type_synonym ID = string

text \<open>
  The members of the \<open>ChainId\<close> enum (\<open>chainid.ts\<close>).  The enum's numeric values
  are not part of the sources at hand; every definition takes the enum as a parameter.
\<close>

record ChainId =
  ChainId_ETH :: int
  ChainId_OPTIMISM :: int
  ChainId_BSC :: int
  ChainId_POLYGON :: int
  ChainId_FANTOM :: int
  ChainId_BOBA :: int
  ChainId_MOONBEAM :: int
  ChainId_MOONRIVER :: int
  ChainId_ARBITRUM :: int
  ChainId_AVALANCHE :: int
  ChainId_HARMONY :: int

text \<open>
  The \<open>SwapType\<close> string enum; the source branches on three of its members only.
\<close>

datatype SwapType = SwapType_ETH | SwapType_AVAX | SwapType_MOVR | SwapType_other string

text \<open>
  Modelled from the spec: the \<open>Token\<close> class (\<open>token.ts\<close>) is not among the sources.
  Section 3 of the specification gives a token a stable logical id, a symbol, a per-chain
  contract address and per-chain decimals, a swap-type category, an optional
  \<open>underlyingToken\<close> reference and an \<open>isWrappedToken\<close> flag; \<open>wrapperAddress\<close> is the
  per-chain lookup the source calls on \<open>Tokens.GMX\<close>.  A per-chain lookup that finds
  nothing is \<open>None\<close> (JavaScript \<open>undefined\<close>).
\<close>

datatype Token = Token
  (token_id: ID)
  (symbol: string)
  (swapType: SwapType)
  (address: "int \<Rightarrow> string option")
  (decimals: "int \<Rightarrow> int option")
  (wrapperAddress: "int \<Rightarrow> string option")
  (isWrappedToken: bool)
  (underlyingToken: "Token option")

text \<open>Modelled from the spec: token equality is by logical id, not by address.\<close>

definition isEqual :: "Token \<Rightarrow> Token \<Rightarrow> bool" where
  "isEqual a b = (token_id a = token_id b)"

section \<open>networks.ts\<close>

definition ETH_TOKEN_CHAINS :: "ChainId \<Rightarrow> int list" where
  "ETH_TOKEN_CHAINS C = [ChainId_ETH C, ChainId_BOBA C, ChainId_ARBITRUM C]"

record Network =
  name :: string
  names :: "string list"
  chainCurrency :: string
  chainId :: int
  tokens :: "Token list"
  tokenAddresses :: "string option list"

text \<open>
  The constructor of \<open>Network\<close>.  \<open>swappable\<close> stands for
  \<open>SwapPools.getAllSwappableTokensForNetwork\<close>; an absent \<open>names\<close> argument is \<open>None\<close>.
\<close>

definition new_Network ::
  "(int \<Rightarrow> Token list) \<Rightarrow> string \<Rightarrow> string list option \<Rightarrow> int \<Rightarrow> string \<Rightarrow> Network" where
  "new_Network swappable nm nms cid cur =
     (let toks = swappable cid
      in \<lparr> name = nm,
           names = (case nms of None \<Rightarrow> [] | Some ns \<Rightarrow> ns),
           chainCurrency = cur,
           chainId = cid,
           tokens = toks,
           tokenAddresses = map (\<lambda>t. address t cid) toks \<rparr>)"

definition zapIsL2BridgeZap :: "ChainId \<Rightarrow> Network \<Rightarrow> bool" where
  "zapIsL2BridgeZap C this = (chainId this \<noteq> ChainId_ETH C)"

definition supportsToken :: "ChainId \<Rightarrow> Network \<Rightarrow> Token \<Rightarrow> bool" where
  "supportsToken C this token =
     (if symbol token = ''ETH'' \<and> chainId this \<in> set (ETH_TOKEN_CHAINS C) then True
      else address token (chainId this) \<in> set (tokenAddresses this))"

definition Networks_ETH :: "ChainId \<Rightarrow> (int \<Rightarrow> Token list) \<Rightarrow> Network" where
  "Networks_ETH C sw =
     new_Network sw ''Ethereum Mainnet'' (Some [''eth'', ''mainnet'']) (ChainId_ETH C) ''ETH''"

definition Networks_BSC :: "ChainId \<Rightarrow> (int \<Rightarrow> Token list) \<Rightarrow> Network" where
  "Networks_BSC C sw =
     new_Network sw ''Binance Smart Chain'' (Some [''smart chain'', ''bsc'']) (ChainId_BSC C) ''BNB''"

definition Networks_POLYGON :: "ChainId \<Rightarrow> (int \<Rightarrow> Token list) \<Rightarrow> Network" where
  "Networks_POLYGON C sw =
     new_Network sw ''Polygon'' (Some [''poly'', ''matic'']) (ChainId_POLYGON C) ''MATIC''"

definition Networks_FANTOM :: "ChainId \<Rightarrow> (int \<Rightarrow> Token list) \<Rightarrow> Network" where
  "Networks_FANTOM C sw =
     new_Network sw ''Fantom'' (Some [''ftm'']) (ChainId_FANTOM C) ''FTM''"

definition Networks_BOBA :: "ChainId \<Rightarrow> (int \<Rightarrow> Token list) \<Rightarrow> Network" where
  "Networks_BOBA C sw =
     new_Network sw ''Boba Network'' None (ChainId_BOBA C) ''ETH''"

definition Networks_MOONRIVER :: "ChainId \<Rightarrow> (int \<Rightarrow> Token list) \<Rightarrow> Network" where
  "Networks_MOONRIVER C sw =
     new_Network sw ''Moonriver'' None (ChainId_MOONRIVER C) ''MOVR''"

definition Networks_ARBITRUM :: "ChainId \<Rightarrow> (int \<Rightarrow> Token list) \<Rightarrow> Network" where
  "Networks_ARBITRUM C sw =
     new_Network sw ''Arbitrum'' (Some [''arbi'', ''arb'']) (ChainId_ARBITRUM C) ''ETH''"

definition Networks_AVALANCHE :: "ChainId \<Rightarrow> (int \<Rightarrow> Token list) \<Rightarrow> Network" where
  "Networks_AVALANCHE C sw =
     new_Network sw ''Avalanche C-Chain'' (Some [''avalanche'', ''avax'']) (ChainId_AVALANCHE C) ''AVAX''"

definition Networks_HARMONY :: "ChainId \<Rightarrow> (int \<Rightarrow> Token list) \<Rightarrow> Network" where
  "Networks_HARMONY C sw =
     new_Network sw ''Harmony'' None (ChainId_HARMONY C) ''ONE''"

text \<open>
  A JavaScript object literal keeps, for a key written twice, the value written last.
  \<open>object_get\<close> reads a literal given as its list of entries in source order.
\<close>

definition object_get :: "('k \<times> 'v) list \<Rightarrow> 'k \<Rightarrow> 'v option" where
  "object_get entries k = map_of (rev entries) k"

definition CHAINID_NETWORK_MAP :: "ChainId \<Rightarrow> (int \<Rightarrow> Token list) \<Rightarrow> (int \<times> Network) list" where
  "CHAINID_NETWORK_MAP C sw =
     [(ChainId_ETH C, Networks_ETH C sw),
      (ChainId_BSC C, Networks_BSC C sw),
      (ChainId_POLYGON C, Networks_POLYGON C sw),
      (ChainId_FANTOM C, Networks_FANTOM C sw),
      (ChainId_BOBA C, Networks_BOBA C sw),
      (ChainId_MOONRIVER C, Networks_MOONRIVER C sw),
      (ChainId_ARBITRUM C, Networks_ARBITRUM C sw),
      (ChainId_AVALANCHE C, Networks_AVALANCHE C sw),
      (ChainId_HARMONY C, Networks_HARMONY C sw)]"

text \<open>\<open>Networks.fromChainId\<close>: \<open>None\<close> is the \<open>null\<close> of \<open>?? null\<close>.\<close>

definition fromChainId :: "ChainId \<Rightarrow> (int \<Rightarrow> Token list) \<Rightarrow> int \<Rightarrow> Network option" where
  "fromChainId C sw cid = object_get (CHAINID_NETWORK_MAP C sw) cid"

section \<open>Required confirmations\<close>

definition REQUIRED_CONFS :: "ChainId \<Rightarrow> (int \<times> int) list" where
  "REQUIRED_CONFS C =
     [(ChainId_ETH C, 7),
      (ChainId_OPTIMISM C, 1),
      (ChainId_BSC C, 14),
      (ChainId_POLYGON C, 128),
      (ChainId_FANTOM C, 5),
      (ChainId_BOBA C, 1),
      (ChainId_MOONBEAM C, 21),
      (ChainId_MOONRIVER C, 21),
      (ChainId_ARBITRUM C, 40),
      (ChainId_AVALANCHE C, 5),
      (ChainId_HARMONY C, 1)]"

text \<open>
  The argument is \<open>Networks.Network | number\<close>: \<open>Inl\<close> a network instance, \<open>Inr\<close> a
  bare chain id.  The result \<open>-1\<close> is the value for a chain without an entry.
\<close>

definition getRequiredConfirmationsForBridge :: "ChainId \<Rightarrow> Network + int \<Rightarrow> int" where
  "getRequiredConfirmationsForBridge C network =
     (let cid = (case network of Inl n \<Rightarrow> chainId n | Inr c \<Rightarrow> c)
      in case object_get (REQUIRED_CONFS C) cid of Some n \<Rightarrow> n | None \<Rightarrow> - 1)"

section \<open>bridge.ts: data\<close>

text \<open>
  The members of the \<open>Tokens\<close> catalogue that the bridge names.  The catalogue
  (\<open>tokens.ts\<close>) is not part of the sources at hand and is a parameter.
\<close>

record TokensCatalog =
  Tokens_NUSD :: Token
  Tokens_SYN :: Token
  Tokens_HIGH :: Token
  Tokens_DOG :: Token
  Tokens_FRAX :: Token
  Tokens_NETH :: Token
  Tokens_GMX :: Token
  Tokens_ETH :: Token
  Tokens_WETH :: Token
  Tokens_WETH_E :: Token
  Tokens_AVWETH :: Token
  Tokens_AVAX :: Token
  Tokens_WAVAX :: Token
  Tokens_MOVR :: Token
  Tokens_WMOVR :: Token

text \<open>
  Every way a call of the bridge can be rejected.  \<open>RouteUnsupported\<close> carries the
  reason string of \<open>swapSupported\<close>; \<open>EmptyDestinationAddress\<close> is the error raised for
  an empty or absent \<open>addressTo\<close>; \<open>TypeError\<close> is a member access on \<open>undefined\<close>;
  \<open>NumericFault\<close> is a \<open>BigNumber\<close> operation refusing its argument; \<open>CallFailed\<close> is
  a rejected collaborator call; \<open>CannotBridge\<close> is the balance or allowance error of
  \<open>checkCanBridge\<close>.  \<open>UnhandledRejection e\<close> is not a rejection of the call: it is the
  rejection \<open>e\<close> of a promise that has no handler yet when the rejection arrives.  It is
  reported to the host as an unhandled rejection (the default of Node.js then ends the
  process), and the caller receives no result.
\<close>

datatype error =
    RouteUnsupported string
  | EmptyDestinationAddress
  | TypeError
  | NumericFault
  | CallFailed string
  | CannotBridge string
  | UnhandledRejection error

record 'amt BridgeParams =
  tokenFrom :: Token
  tokenTo :: Token
  chainIdTo :: int
  amountFrom :: 'amt

text \<open>
  \<open>BridgeParams.amountFrom\<close> is optional (\<open>int option BridgeParams\<close>);
  \<open>BridgeTransactionParams\<close> makes it required.
\<close>

record BridgeTransactionParams = "int BridgeParams" +
  amountTo :: int
  addressTo :: "string option"

record BridgeOutputEstimate =
  amountToReceive :: int
  bridgeFee :: int

record BridgeTokenArgs =
  fromChainTokens :: "Token list"
  toChainTokens :: "Token list"
  ta_tokenFrom :: Token
  ta_tokenTo :: Token
  tokenIndexFrom :: int
  tokenIndexTo :: int

text \<open>
  A populated transaction: the contract it is addressed to (the chain's zap bridge or
  the bridge contract itself), the method, the ordered arguments and the \<open>value\<close>
  override when one is given.
\<close>

datatype Contract = ZapBridge | BridgeInstance

datatype Method =
    redeem | deposit | depositETH
  | zapAndDeposit | depositETHAndSwap | zapAndDepositAndSwap
  | redeemAndSwap | swapAndRedeemAndSwap | swapETHAndRedeemAndSwap
  | swapAndRedeem | swapETHAndRedeem
  | redeemAndRemove | swapAndRedeemAndRemove

datatype arg = ArgString "string option" | ArgNumber int | ArgNumbers "int list" | ArgUndefined

record PopulatedTransaction =
  contract :: Contract
  txn_method :: Method
  args :: "arg list"
  txn_value :: "int option"

record EasyArgsCheck =
  isEasy :: bool
  castArgs :: BridgeTransactionParams
  txn :: "PopulatedTransaction option"

record Slippages =
  transactionDeadline :: int
  bridgeTransactionDeadline :: int
  minToSwapDestFromOrigin :: int
  minToSwapDest :: int
  minToSwapOriginMediumSlippage :: int
  minToSwapDestFromOriginMediumSlippage :: int
  minToSwapOriginHighSlippage :: int
  minToSwapDestFromOriginHighSlippage :: int

record DepositIfChainArgs =
  dic_chainId :: int
  dic_tokens :: "Token list"
  depositEth :: bool
  altChainId :: "int option"

text \<open>
  The collaborator calls, as they appear in a trace.  The read-only queries of the
  output estimate: the fee oracle (\<open>calculateSwapFee\<close> of the bridge configuration
  contract), the canonical chain's liquidity mathematics and a chain's swap mathematics
  (the first argument of \<open>Call_calculateSwapL2Zap\<close> and of
  \<open>Call_calculateRemoveLiquidityOneToken\<close> is the chain whose zap contract is asked).
  The calls of an executed bridge: the signer's address, the \<open>ERC20\<close> balance (owner,
  token address, chain) and allowance (owner, spender, token address, chain), and the
  sending of the signed transaction.
\<close>

datatype call =
    Call_calculateSwapFee "string option" int int
  | Call_calculateTokenAmount "int list" bool
  | Call_calculateSwapL2Zap int "string option" int int int
  | Call_calculateRemoveLiquidityOneToken int int int
  | Call_getAddress
  | Call_balanceOf string "string option" int
  | Call_allowanceOf string string "string option" int
  | Call_sendTransaction PopulatedTransaction

text \<open>
  Everything the bridge takes from modules that are not part of the sources at hand:
  the enum and the catalogue, the predicates and tables of \<open>Tokens\<close>, \<open>BridgeUtils\<close>,
  \<open>SwapPools\<close> and \<open>TokenSwap\<close>, the parameter builders of \<open>BridgeUtils\<close>, the gas
  defaults of \<open>GasUtils\<close>, the address of a chain's zap bridge contract, and
  \<open>respond\<close>, what the network answers to a query (\<open>Inl\<close> a rejected promise).
  Two requests that are in flight together are answered in either order:
  \<open>feeSettlesFirst\<close> says that the fee request of an estimate is answered before the
  origin-side query, \<open>balanceSettlesFirst\<close> that the balance request of
  \<open>checkCanBridge\<close> is answered before the allowance request.  \<open>SwapPools_bridgeSwappableTypePoolsByChain\<close> is \<open>None\<close>
  where the chain of optional accesses ending in \<open>poolTokens\<close> yields \<open>undefined\<close>.
  \<open>TokenSwap_bridgeSwapSupported\<close> takes \<open>tokenFrom\<close>, \<open>tokenTo\<close>, \<open>chainIdTo\<close>,
  \<open>chainIdFrom\<close> and returns \<open>swapSupported\<close> with the optional reason.
\<close>

record Env =
  ChainIds :: ChainId
  Tokens :: TokensCatalog
  Tokens_isMintBurnToken :: "Token \<Rightarrow> bool"
  BridgeUtils_isL2ETHChain :: "int \<Rightarrow> bool"
  BridgeUtils_isETHLikeToken :: "Token \<Rightarrow> bool"
  BridgeUtils_DepositIfChainTokens :: "DepositIfChainArgs list"
  BridgeUtils_makeEasyParams :: "BridgeTransactionParams \<Rightarrow> int \<Rightarrow> Token \<Rightarrow> arg list"
  BridgeUtils_makeEasySubParams :: "BridgeTransactionParams \<Rightarrow> int \<Rightarrow> Token \<Rightarrow> arg list"
  BridgeUtils_depositETHParams :: "BridgeTransactionParams \<Rightarrow> arg list"
  BridgeUtils_makeOverrides :: "int \<Rightarrow> bool \<Rightarrow> int option"
  BridgeUtils_getSlippages :: "int \<Rightarrow> int \<Rightarrow> Slippages"
  SwapPools_bridgeSwappableTypePoolsByChain :: "int \<Rightarrow> SwapType \<Rightarrow> Token list option"
  SwapPools_getAllSwappableTokensForNetwork :: "int \<Rightarrow> Token list"
  TokenSwap_bridgeSwapSupported :: "Token \<Rightarrow> Token \<Rightarrow> int \<Rightarrow> int \<Rightarrow> bool \<times> string option"
  TokenSwap_intermediateTokens :: "int \<Rightarrow> Token \<Rightarrow> Token \<times> Token"
  GasUtils_populateGasParams :: "int \<Rightarrow> PopulatedTransaction \<Rightarrow> error + PopulatedTransaction"
  SynapseEntities_zapBridgeAddress :: "int \<Rightarrow> string"
  respond :: "call \<Rightarrow> error + nat"
  feeSettlesFirst :: bool
  balanceSettlesFirst :: bool

text \<open>
  The fields of a \<open>SynapseBridge\<close> instance that the methods read; the provider and the
  contract handles built by the constructor carry no state of their own.
\<close>

record SynapseBridge =
  network :: Network
  bridge_chainId :: int
  requiredConfirmations :: int
  isL2Zap :: bool
  isL2ETHChain :: bool
  zapBridgeAddress :: string

text \<open>
  An ethers \<open>Signer\<close>: what \<open>getAddress\<close> resolves to, and what sending a transaction
  resolves to (the hash of the sent transaction).
\<close>

record Signer =
  getAddress :: "error + string"
  sendTransaction :: "PopulatedTransaction \<Rightarrow> error + string"

section \<open>bridge.ts: construction and eligibility\<close>

text \<open>
  The constructor.  Given a bare chain id it looks the network up; for a chain without a
  network the lookup is \<open>null\<close> and reading its \<open>chainId\<close> is a \<open>TypeError\<close>.
\<close>

definition new_SynapseBridge :: "Env \<Rightarrow> Network + int \<Rightarrow> error + SynapseBridge" where
  "new_SynapseBridge env nw =
     (case (case nw of Inl n \<Rightarrow> Some n
            | Inr c \<Rightarrow> fromChainId (ChainIds env) (SwapPools_getAllSwappableTokensForNetwork env) c) of
        None \<Rightarrow> Inl TypeError
      | Some n \<Rightarrow>
          Inr \<lparr> network = n,
                bridge_chainId = chainId n,
                requiredConfirmations = getRequiredConfirmationsForBridge (ChainIds env) (Inl n),
                isL2Zap = zapIsL2BridgeZap (ChainIds env) n,
                isL2ETHChain = BridgeUtils_isL2ETHChain env (chainId n),
                zapBridgeAddress = SynapseEntities_zapBridgeAddress env (chainId n) \<rparr>)"

definition swapSupported ::
  "Env \<Rightarrow> SynapseBridge \<Rightarrow> ('a, 'b) BridgeParams_scheme \<Rightarrow> bool \<times> string" where
  "swapSupported env this a =
     (case TokenSwap_bridgeSwapSupported env (tokenFrom a) (tokenTo a) (chainIdTo a)
             (bridge_chainId this) of
        (supported, reasonNotSupported) \<Rightarrow>
          (supported, (case reasonNotSupported of None \<Rightarrow> '''' | Some r \<Rightarrow> r)))"

definition checkSwapSupported ::
  "Env \<Rightarrow> SynapseBridge \<Rightarrow> ('a, 'b) BridgeParams_scheme \<Rightarrow> error + bool" where
  "checkSwapSupported env this a =
     (case swapSupported env this a of
        (supported, errReason) \<Rightarrow>
          if \<not> supported then Inl (RouteUnsupported errReason) else Inr True)"

section \<open>bridge.ts: token-argument resolution\<close>

definition checkAndChangeToken :: "Token \<Rightarrow> Token \<Rightarrow> Token \<Rightarrow> Token" where
  "checkAndChangeToken t check swappy = (if isEqual t check then swappy else t)"

definition checkAndChangeTokens :: "Token \<Rightarrow> Token \<Rightarrow> Token \<Rightarrow> Token \<Rightarrow> Token \<times> Token" where
  "checkAndChangeTokens check swappy t1 t2 =
     (checkAndChangeToken t1 check swappy, checkAndChangeToken t2 check swappy)"

definition bridgeTokens :: "TokensCatalog \<Rightarrow> SwapType \<Rightarrow> Token \<Rightarrow> Token \<Rightarrow> Token \<times> Token" where
  "bridgeTokens T st =
     (case st of
        SwapType_ETH \<Rightarrow> checkAndChangeTokens (Tokens_ETH T) (Tokens_WETH T)
      | SwapType_AVAX \<Rightarrow> checkAndChangeTokens (Tokens_AVAX T) (Tokens_WAVAX T)
      | SwapType_MOVR \<Rightarrow> checkAndChangeTokens (Tokens_MOVR T) (Tokens_WMOVR T)
      | SwapType_other _ \<Rightarrow> (\<lambda>t1 t2. (t1, t2)))"

text \<open>
  \<open>findSymbol\<close> compares a pool entry \<open>tokA\<close> with the token that stands for the target
  \<open>tokB\<close>.  A wrapped target without an underlying token makes the comparison read a
  member of \<open>undefined\<close>.
\<close>

definition findSymbol :: "TokensCatalog \<Rightarrow> Token \<Rightarrow> Token \<Rightarrow> error + bool" where
  "findSymbol T tokA tokB =
     (let compareTok =
            (if isEqual tokB (Tokens_WETH_E T) then Some (Tokens_AVWETH T)
             else if isEqual tokB (Tokens_WETH T) then Some (Tokens_WETH T)
             else if isWrappedToken tokB then underlyingToken tokB
             else Some tokB)
      in case compareTok of
           None \<Rightarrow> Inl TypeError
         | Some c \<Rightarrow> Inr (isEqual tokA c))"

text \<open>
  \<open>Array.prototype.findIndex\<close> with a callback that may throw: the position of the
  first entry the callback accepts, counted from \<open>i\<close>, and \<open>-1\<close> when there is none.
\<close>

fun findIndex :: "('a \<Rightarrow> error + bool) \<Rightarrow> 'a list \<Rightarrow> int \<Rightarrow> error + int" where
  "findIndex p [] i = Inr (- 1)"
| "findIndex p (x # xs) i =
     (case p x of
        Inl e \<Rightarrow> Inl e
      | Inr found \<Rightarrow> if found then Inr i else findIndex p xs (i + 1))"

definition makeTokenArgs :: "Env \<Rightarrow> int \<Rightarrow> Token \<Rightarrow> error + (Token list \<times> int)" where
  "makeTokenArgs env cid t =
     (case SwapPools_bridgeSwappableTypePoolsByChain env cid (swapType t) of
        None \<Rightarrow> Inl TypeError
      | Some toks \<Rightarrow>
          (case findIndex (\<lambda>tok. findSymbol (Tokens env) tok t) toks 0 of
             Inl e \<Rightarrow> Inl e
           | Inr idx \<Rightarrow> Inr (toks, idx)))"

definition makeBridgeTokenArgs ::
  "Env \<Rightarrow> SynapseBridge \<Rightarrow> ('a, 'b) BridgeParams_scheme \<Rightarrow> error + BridgeTokenArgs" where
  "makeBridgeTokenArgs env this a =
     (case bridgeTokens (Tokens env) (swapType (tokenFrom a)) (tokenFrom a) (tokenTo a) of
        (tFrom, tTo) \<Rightarrow>
          (case makeTokenArgs env (bridge_chainId this) tFrom of
             Inl e \<Rightarrow> Inl e
           | Inr (fromToks, idxFrom) \<Rightarrow>
               (case makeTokenArgs env (chainIdTo a) tTo of
                  Inl e \<Rightarrow> Inl e
                | Inr (toToks, idxTo) \<Rightarrow>
                    Inr \<lparr> fromChainTokens = fromToks,
                          toChainTokens = toToks,
                          ta_tokenFrom = tFrom,
                          ta_tokenTo = tTo,
                          tokenIndexFrom = idxFrom,
                          tokenIndexTo = idxTo \<rparr>)))"

section \<open>bridge.ts: output estimate\<close>

text \<open>
  Modelled from the spec: \<open>BridgeUtils.subBigNumSafe\<close> is not among the sources.  The
  specification (4.5, step 5) has it subtract the bridge fee from the origin-side
  amount, clamped at zero (never negative).
\<close>

definition subBigNumSafe :: "int \<Rightarrow> int \<Rightarrow> int" where
  "subBigNumSafe a b = (if a > b then a - b else 0)"

definition checkEthy :: "Env \<Rightarrow> int \<Rightarrow> Token \<Rightarrow> bool" where
  "checkEthy env c t = (BridgeUtils_isL2ETHChain env c \<and> swapType t = SwapType_ETH)"

text \<open>The two constants \<open>ethToEth\<close> and \<open>ethFromEth\<close> of \<open>calculateBridgeRate\<close>.\<close>

definition ethToEth_of :: "Env \<Rightarrow> SynapseBridge \<Rightarrow> int \<Rightarrow> BridgeTokenArgs \<Rightarrow> bool" where
  "ethToEth_of env this cidTo ta =
     (bridge_chainId this = ChainId_ETH (ChainIds env) \<and> checkEthy env cidTo (ta_tokenTo ta))"

definition ethFromEth_of :: "Env \<Rightarrow> SynapseBridge \<Rightarrow> int \<Rightarrow> BridgeTokenArgs \<Rightarrow> bool" where
  "ethFromEth_of env this cidTo ta =
     (cidTo = ChainId_ETH (ChainIds env) \<and> checkEthy env (bridge_chainId this) (ta_tokenFrom ta))"

text \<open>
  The amount handed to the fee oracle, \<open>amountFrom.mul(bigNumTen.pow(18 - decimals))\<close>:
  an absent \<open>amountFrom\<close> has no \<open>mul\<close>, and \<open>pow\<close> refuses an exponent that is not a
  number or is negative.  On success the amount itself is returned with the scaled one.
\<close>

definition feeRequestAmount :: "int option \<Rightarrow> int option \<Rightarrow> error + (int \<times> int)" where
  "feeRequestAmount amt dec =
     (case amt of
        None \<Rightarrow> Inl TypeError
      | Some a \<Rightarrow>
          (case dec of
             None \<Rightarrow> Inl NumericFault
           | Some d \<Rightarrow>
               if 18 - d < 0 then Inl NumericFault
               else Inr (a, a * 10 ^ nat (18 - d))))"

text \<open>Awaiting a query: the answer of the network, or the rejection.\<close>

definition await_call :: "Env \<Rightarrow> call \<Rightarrow> error + int" where
  "await_call env q = (case respond env q of Inl e \<Rightarrow> Inl e | Inr n \<Rightarrow> Inr (int n))"

text \<open>
  The first \<open>switch (true)\<close> of \<open>calculateBridgeRate\<close>: the origin-side amount, with
  the queries it issues.
\<close>

definition amountToReceive_from ::
  "Env \<Rightarrow> SynapseBridge \<Rightarrow> BridgeTokenArgs \<Rightarrow> Token \<Rightarrow> bool \<Rightarrow> int \<Rightarrow> call list \<times> (error + int)" where
  "amountToReceive_from env this ta intermediateToken ethToEth amt =
     (if amt = 0 then ([], Inr 0)
      else if ethToEth \<or> Tokens_isMintBurnToken env (ta_tokenFrom ta)
                \<or> isWrappedToken (ta_tokenFrom ta)
        then ([], Inr amt)
      else if bridge_chainId this = ChainId_ETH (ChainIds env) then
        (let liquidityAmounts =
               map (\<lambda>t. if isEqual (ta_tokenFrom ta) t then amt else 0) (fromChainTokens ta);
             q = Call_calculateTokenAmount liquidityAmounts True
         in ([q], await_call env q))
      else
        (let q = Call_calculateSwapL2Zap (bridge_chainId this)
                   (address intermediateToken (bridge_chainId this)) (tokenIndexFrom ta) 0 amt
         in ([q], await_call env q)))"

text \<open>The second \<open>switch (true)\<close>: the destination-side amount.\<close>

definition amountToReceive_to ::
  "Env \<Rightarrow> int \<Rightarrow> BridgeTokenArgs \<Rightarrow> Token \<Rightarrow> bool \<Rightarrow> int \<Rightarrow> call list \<times> (error + int)" where
  "amountToReceive_to env cidTo ta intermediateToken ethFromEth amt =
     (if amt = 0 then ([], Inr 0)
      else if ethFromEth \<or> Tokens_isMintBurnToken env (ta_tokenTo ta)
                \<or> isWrappedToken (ta_tokenTo ta)
        then ([], Inr amt)
      else if cidTo = ChainId_ETH (ChainIds env) then
        (let q = Call_calculateRemoveLiquidityOneToken cidTo amt (tokenIndexTo ta)
         in ([q], await_call env q))
      else
        (let q = Call_calculateSwapL2Zap cidTo (address intermediateToken cidTo) 0
                   (tokenIndexTo ta) amt
         in ([q], await_call env q)))"

text \<open>
  A request that is in flight together with another one may be answered first.
  \<open>unhandled_rejection env first q\<close> is the rejection of request \<open>q\<close> when it is
  answered first (\<open>first\<close>) and the answer is a rejection: the promise of \<open>q\<close> has no
  handler at that moment, so the rejection is reported to the host as unhandled.
\<close>

definition unhandled_rejection :: "Env \<Rightarrow> bool \<Rightarrow> call \<Rightarrow> error option" where
  "unhandled_rejection env first q =
     (if first then (case respond env q of Inl e \<Rightarrow> Some e | Inr _ \<Rightarrow> None) else None)"

text \<open>
  \<open>calculateBridgeRate\<close> returns the queries issued, in the order of issue, and the
  outcome: \<open>Inl\<close> a rejection, \<open>Inr None\<close> the \<open>null\<close> returned (after logging) when the
  rejection of the fee request is caught, \<open>Inr (Some est)\<close> the estimate.  Creating the
  contract handle of the destination chain's zap bridge, which opens the function, sends
  nothing.

  The fee request is issued before the origin-side amount is computed, and its promise
  gets its first handler at the \<open>await\<close> inside \<open>try\<close>, after the origin-side amount.
  Where the origin-side amount awaits a query of its own (\<open>qs1\<close> is not empty), the fee
  request and that query are in flight together: a fee rejection that arrives first
  (\<open>feeSettlesFirst\<close>) meets no handler and is an unhandled rejection.  Where the
  origin-side amount awaits nothing, the handler is attached before any answer can
  arrive.  A fee rejection that arrives after the origin-side query was itself rejected
  is unhandled as well, but by then the call has been rejected with the error of the
  origin-side query, which is the outcome given here.
\<close>

definition calculateBridgeRate ::
  "Env \<Rightarrow> SynapseBridge \<Rightarrow> (int option, 'b) BridgeParams_scheme
     \<Rightarrow> call list \<times> (error + BridgeOutputEstimate option)" where
  "calculateBridgeRate env this a =
     (case makeBridgeTokenArgs env this a of
        Inl e \<Rightarrow> ([], Inl e)
      | Inr ta \<Rightarrow>
          (case TokenSwap_intermediateTokens env (chainIdTo a) (ta_tokenFrom ta) of
             (intermediateToken, bridgeConfigIntermediateToken) \<Rightarrow>
               (case feeRequestAmount (amountFrom a)
                       (decimals (ta_tokenFrom ta) (bridge_chainId this)) of
                  Inl e \<Rightarrow> ([], Inl e)
                | Inr (amt, scaled) \<Rightarrow>
                    (let bridgeFeeRequest =
                           Call_calculateSwapFee
                             (address bridgeConfigIntermediateToken (chainIdTo a))
                             (chainIdTo a) scaled;
                         ethToEth = ethToEth_of env this (chainIdTo a) ta;
                         ethFromEth = ethFromEth_of env this (chainIdTo a) ta
                     in case amountToReceive_from env this ta intermediateToken ethToEth amt of
                          (qs1, r1) \<Rightarrow>
                            (case (if qs1 = [] then None
                                   else unhandled_rejection env (feeSettlesFirst env)
                                          bridgeFeeRequest) of
                               Some e \<Rightarrow> (bridgeFeeRequest # qs1, Inl (UnhandledRejection e))
                             | None \<Rightarrow>
                                 (case r1 of
                                    Inl e \<Rightarrow> (bridgeFeeRequest # qs1, Inl e)
                                  | Inr amt_from \<Rightarrow>
                                      (case await_call env bridgeFeeRequest of
                                         Inl e \<Rightarrow> (bridgeFeeRequest # qs1, Inr None)
                                       | Inr fee \<Rightarrow>
                                           (case amountToReceive_to env (chainIdTo a) ta
                                                   intermediateToken ethFromEth
                                                   (subBigNumSafe amt_from fee) of
                                              (qs2, Inl e) \<Rightarrow>
                                                (bridgeFeeRequest # qs1 @ qs2, Inl e)
                                            | (qs2, Inr amt_to) \<Rightarrow>
                                                (bridgeFeeRequest # qs1 @ qs2,
                                                 Inr (Some \<lparr> amountToReceive = amt_to,
                                                             bridgeFee = fee \<rparr>))))))))))"

definition estimateBridgeTokenOutput ::
  "Env \<Rightarrow> SynapseBridge \<Rightarrow> (int option, 'b) BridgeParams_scheme
     \<Rightarrow> call list \<times> (error + BridgeOutputEstimate option)" where
  "estimateBridgeTokenOutput env this a =
     (case checkSwapSupported env this a of
        Inl e \<Rightarrow> ([], Inl e)
      | Inr _ \<Rightarrow> calculateBridgeRate env this a)"

section \<open>bridge.ts: transaction shapes\<close>

definition populate :: "Contract \<Rightarrow> Method \<Rightarrow> arg list \<Rightarrow> int option \<Rightarrow> PopulatedTransaction" where
  "populate c m xs v = \<lparr> contract = c, txn_method = m, args = xs, txn_value = v \<rparr>"

text \<open>Reading position \<open>i\<close> of an array: \<open>undefined\<close> beyond its end.\<close>

definition array_get :: "arg list \<Rightarrow> nat \<Rightarrow> arg" where
  "array_get xs i = (if i < length xs then xs ! i else ArgUndefined)"

definition checkEasyArgs ::
  "Env \<Rightarrow> SynapseBridge \<Rightarrow> BridgeTransactionParams \<Rightarrow> ID list \<Rightarrow> ID list \<Rightarrow> ID list
     \<Rightarrow> EasyArgsCheck" where
  "checkEasyArgs env this a easyDeposits easyRedeems easyDepositETH =
     (let params = BridgeUtils_makeEasyParams env a (bridge_chainId this) (tokenTo a)
      in if token_id (tokenTo a) \<in> set easyRedeems then
           \<lparr> isEasy = True, castArgs = a, txn = Some (populate ZapBridge redeem params None) \<rparr>
         else if token_id (tokenTo a) \<in> set easyDeposits then
           \<lparr> isEasy = True, castArgs = a, txn = Some (populate ZapBridge deposit params None) \<rparr>
         else if token_id (tokenTo a) \<in> set easyDepositETH then
           \<lparr> isEasy = True, castArgs = a,
             txn = Some (populate ZapBridge depositETH (BridgeUtils_depositETHParams env a)
                           (Some (amountFrom a))) \<rparr>
         else \<lparr> isEasy = False, castArgs = a, txn = None \<rparr>)"

text \<open>The three membership lists of \<open>buildETHMainnetBridgeTxn\<close>, after the conditional push.\<close>

definition mainnet_easyRedeems :: "Env \<Rightarrow> ID list" where
  "mainnet_easyRedeems env = [token_id (Tokens_SYN (Tokens env))]"

definition mainnet_easyDeposits :: "Env \<Rightarrow> BridgeTransactionParams \<Rightarrow> ID list" where
  "mainnet_easyDeposits env a =
     [token_id (Tokens_HIGH (Tokens env)), token_id (Tokens_DOG (Tokens env)),
      token_id (Tokens_FRAX (Tokens env))]
     @ (if isEqual (tokenFrom a) (Tokens_NUSD (Tokens env))
        then [token_id (Tokens_NUSD (Tokens env))] else [])"

definition mainnet_easyDepositETH :: "Env \<Rightarrow> ID list" where
  "mainnet_easyDepositETH env = [token_id (Tokens_NETH (Tokens env))]"

definition liquidityAmounts_of :: "Token \<Rightarrow> int \<Rightarrow> Token list \<Rightarrow> int list" where
  "liquidityAmounts_of tFrom amt toks = map (\<lambda>t. if isEqual tFrom t then amt else 0) toks"

text \<open>
  \<open>buildETHMainnetBridgeTxn\<close>; \<open>None\<close> is the \<open>undefined\<close> the function returns when it
  leaves the \<open>switch\<close> through the \<open>break\<close> of the \<open>NUSD\<close> case.
\<close>

definition buildETHMainnetBridgeTxn ::
  "Env \<Rightarrow> SynapseBridge \<Rightarrow> BridgeTransactionParams \<Rightarrow> BridgeTokenArgs
     \<Rightarrow> PopulatedTransaction option" where
  "buildETHMainnetBridgeTxn env this a tokenArgs =
     (let T = Tokens env;
          chk = checkEasyArgs env this a (mainnet_easyDeposits env a) (mainnet_easyRedeems env)
                  (mainnet_easyDepositETH env)
      in if isEasy chk \<and> txn chk \<noteq> None then txn chk
         else
           (let sl = BridgeUtils_getSlippages env (amountFrom a) (amountTo a)
            in if token_id (tokenTo a) = token_id (Tokens_NUSD T) then
                 (if \<not> isEqual (tokenFrom a) (Tokens_NUSD T) then
                    Some (populate ZapBridge zapAndDeposit
                      [ArgString (addressTo a),
                       ArgNumber (chainIdTo a),
                       ArgString (address (Tokens_NUSD T) (bridge_chainId this)),
                       ArgNumbers (liquidityAmounts_of (tokenFrom a) (amountFrom a)
                                     (fromChainTokens tokenArgs)),
                       ArgNumber (minToSwapDest sl),
                       ArgNumber (transactionDeadline sl)] None)
                  else None)
               else if BridgeUtils_isETHLikeToken env (tokenTo a)
                         \<or> isEqual (tokenTo a) (Tokens_WETH T) then
                 Some (populate ZapBridge depositETHAndSwap
                   (BridgeUtils_depositETHParams env (castArgs chk)
                    @ [ArgNumber 0,
                       ArgNumber (tokenIndexTo tokenArgs),
                       ArgNumber (minToSwapDestFromOrigin sl),
                       ArgNumber (bridgeTransactionDeadline sl)])
                   (Some (amountFrom a)))
               else
                 Some (populate ZapBridge zapAndDepositAndSwap
                   [ArgString (addressTo a),
                    ArgNumber (chainIdTo a),
                    ArgString (address (Tokens_NUSD T) (bridge_chainId this)),
                    ArgNumbers (liquidityAmounts_of (tokenFrom a) (amountFrom a)
                                  (fromChainTokens tokenArgs)),
                    ArgNumber (minToSwapOriginMediumSlippage sl),
                    ArgNumber (transactionDeadline sl),
                    ArgNumber 0,
                    ArgNumber (tokenIndexTo tokenArgs),
                    ArgNumber (minToSwapDestFromOriginMediumSlippage sl),
                    ArgNumber (bridgeTransactionDeadline sl)] None)))"

text \<open>
  One round of the \<open>forEach\<close> over \<open>BridgeUtils.DepositIfChainTokens\<close>, on the three
  lists \<open>(easyDeposits, easyRedeems, easyDepositETH)\<close>.
\<close>

definition depositIfChainStep ::
  "int \<Rightarrow> DepositIfChainArgs \<Rightarrow> ID list \<times> ID list \<times> ID list \<Rightarrow> ID list \<times> ID list \<times> ID list" where
  "depositIfChainStep cid d acc =
     (case acc of
        (easyDeposits, easyRedeems, easyDepositETH) \<Rightarrow>
          (let hasAltChain = (altChainId d \<noteq> None);
               tokenHashes = map token_id (dic_tokens d)
           in if cid = dic_chainId d then
                (if depositEth d
                 then (easyDeposits, easyRedeems, easyDepositETH @ tokenHashes)
                 else (easyDeposits @ tokenHashes, easyRedeems, easyDepositETH))
              else if hasAltChain then
                (if Some cid = altChainId d
                 then (easyDeposits, easyRedeems @ tokenHashes, easyDepositETH)
                 else (easyDeposits, easyRedeems, easyDepositETH))
              else (easyDeposits, easyRedeems @ tokenHashes, easyDepositETH)))"

text \<open>
  The three membership lists of \<open>buildL2BridgeTxn\<close>,
  \<open>(easyDeposits, easyRedeems, easyDepositETH)\<close>, after the conditional push and the
  \<open>forEach\<close>.
\<close>

definition l2_easyLists ::
  "Env \<Rightarrow> SynapseBridge \<Rightarrow> BridgeTransactionParams \<Rightarrow> ID list \<times> ID list \<times> ID list" where
  "l2_easyLists env this a =
     fold (depositIfChainStep (bridge_chainId this)) (BridgeUtils_DepositIfChainTokens env)
       ([],
        [token_id (Tokens_SYN (Tokens env)), token_id (Tokens_HIGH (Tokens env)),
         token_id (Tokens_DOG (Tokens env)), token_id (Tokens_FRAX (Tokens env))]
        @ (if isEqual (tokenFrom a) (Tokens_NUSD (Tokens env))
           then [token_id (Tokens_NUSD (Tokens env))] else []),
        [])"

definition easyRedeemAndSwap ::
  "Env \<Rightarrow> SynapseBridge \<Rightarrow> BridgeTransactionParams \<Rightarrow> BridgeTokenArgs \<Rightarrow> Slippages \<Rightarrow> Token
     \<Rightarrow> PopulatedTransaction" where
  "easyRedeemAndSwap env this a tokenArgs sl baseToken =
     populate ZapBridge redeemAndSwap
       (BridgeUtils_makeEasyParams env a (bridge_chainId this) baseToken
        @ [ArgNumber 0,
           ArgNumber (tokenIndexTo tokenArgs),
           ArgNumber (minToSwapDest sl),
           ArgNumber (transactionDeadline sl)])
       None"

definition easySwapAndRedeemAndSwap ::
  "Env \<Rightarrow> SynapseBridge \<Rightarrow> BridgeTransactionParams \<Rightarrow> BridgeTokenArgs \<Rightarrow> Slippages \<Rightarrow> Token
     \<Rightarrow> bool \<Rightarrow> PopulatedTransaction" where
  "easySwapAndRedeemAndSwap env this a tokenArgs sl baseToken withValueOverride =
     populate ZapBridge swapAndRedeemAndSwap
       (BridgeUtils_makeEasySubParams env a (bridge_chainId this) baseToken
        @ [ArgNumber (tokenIndexFrom tokenArgs),
           ArgNumber 0,
           ArgNumber (amountFrom a),
           ArgNumber (minToSwapOriginHighSlippage sl),
           ArgNumber (transactionDeadline sl),
           ArgNumber 0,
           ArgNumber (tokenIndexTo tokenArgs),
           ArgNumber (minToSwapDestFromOriginHighSlippage sl),
           ArgNumber (bridgeTransactionDeadline sl)])
       (BridgeUtils_makeOverrides env (amountFrom a) withValueOverride)"

text \<open>
  The composite branch of \<open>buildL2BridgeTxn\<close>: the \<open>switch\<close> on the destination token
  that follows the easy-route gate.
\<close>

definition l2_compositeTxn ::
  "Env \<Rightarrow> SynapseBridge \<Rightarrow> BridgeTransactionParams \<Rightarrow> BridgeTokenArgs \<Rightarrow> PopulatedTransaction" where
  "l2_compositeTxn env this a tokenArgs =
     (let T = Tokens env;
          cid = bridge_chainId this;
          sl = BridgeUtils_getSlippages env (amountFrom a) (amountTo a);
          swapLeg = [ArgNumber (tokenIndexFrom tokenArgs),
                     ArgNumber 0,
                     ArgNumber (amountFrom a),
                     ArgNumber (minToSwapOriginHighSlippage sl),
                     ArgNumber (transactionDeadline sl)]
      in if token_id (tokenTo a) = token_id (Tokens_NUSD T) then
           populate ZapBridge swapAndRedeem
             (BridgeUtils_makeEasySubParams env a cid (Tokens_NUSD T) @ swapLeg) None
         else if token_id (tokenTo a) = token_id (Tokens_GMX T) then
           (let params = BridgeUtils_makeEasyParams env a cid (Tokens_GMX T)
            in if cid = ChainId_ARBITRUM (ChainIds env) then
                 populate ZapBridge deposit params None
               else
                 populate BridgeInstance redeem
                   [array_get params 0,
                    array_get params 1,
                    ArgString (wrapperAddress (Tokens_GMX T) cid),
                    array_get params 3] None)
         else if chainIdTo a = ChainId_ETH (ChainIds env) then
           (if isL2ETHChain this then
              (if isEqual (tokenFrom a) (Tokens_NETH T) then
                 populate ZapBridge redeem
                   (BridgeUtils_makeEasyParams env a cid (Tokens_NETH T)) None
               else if BridgeUtils_isETHLikeToken env (tokenFrom a) then
                 populate ZapBridge swapAndRedeem
                   (BridgeUtils_makeEasySubParams env a cid (Tokens_NETH T) @ swapLeg) None
               else
                 populate ZapBridge swapETHAndRedeem
                   (BridgeUtils_makeEasySubParams env a cid (Tokens_NETH T) @ swapLeg)
                   (Some (amountFrom a)))
            else if isEqual (tokenFrom a) (Tokens_NUSD T) then
              populate ZapBridge redeemAndRemove
                (BridgeUtils_makeEasySubParams env a cid (Tokens_NUSD T)
                 @ [ArgNumber (amountFrom a),
                    ArgNumber (tokenIndexTo tokenArgs),
                    ArgNumber (minToSwapDest sl),
                    ArgNumber (transactionDeadline sl)]) None
            else
              populate ZapBridge swapAndRedeemAndRemove
                (BridgeUtils_makeEasySubParams env a cid (Tokens_NUSD T) @ swapLeg
                 @ [ArgNumber (tokenIndexTo tokenArgs),
                    ArgNumber (minToSwapDestFromOriginHighSlippage sl),
                    ArgNumber (bridgeTransactionDeadline sl)]) None)
         else
           (if isEqual (tokenFrom a) (Tokens_NUSD T) then
              easyRedeemAndSwap env this a tokenArgs sl (Tokens_NUSD T)
            else if isEqual (tokenFrom a) (Tokens_NETH T) then
              easyRedeemAndSwap env this a tokenArgs sl (Tokens_NETH T)
            else if swapType (tokenFrom a) = SwapType_ETH then
              (if BridgeUtils_isETHLikeToken env (tokenFrom a) then
                 easySwapAndRedeemAndSwap env this a tokenArgs sl (Tokens_NETH T) False
               else
                 populate ZapBridge swapETHAndRedeemAndSwap
                   (BridgeUtils_makeEasySubParams env a cid (Tokens_NETH T) @ swapLeg
                    @ [ArgNumber 0,
                       ArgNumber (tokenIndexTo tokenArgs),
                       ArgNumber (minToSwapDestFromOriginHighSlippage sl),
                       ArgNumber (bridgeTransactionDeadline sl)])
                   (Some (amountFrom a)))
            else easySwapAndRedeemAndSwap env this a tokenArgs sl (Tokens_NUSD T) False))"

text \<open>
  \<open>buildL2BridgeTxn\<close>.  The assignment to \<open>tokenArgs.tokenFrom\<close> comes first; the
  function reads only the two indices of \<open>tokenArgs\<close> afterwards.
\<close>

definition buildL2BridgeTxn ::
  "Env \<Rightarrow> SynapseBridge \<Rightarrow> BridgeTransactionParams \<Rightarrow> BridgeTokenArgs \<Rightarrow> PopulatedTransaction" where
  "buildL2BridgeTxn env this a tokenArgs0 =
     (let tokenArgs =
            tokenArgs0 \<lparr> ta_tokenFrom :=
              (if isEqual (ta_tokenFrom tokenArgs0) (Tokens_AVWETH (Tokens env))
               then Tokens_WETH_E (Tokens env) else ta_tokenFrom tokenArgs0) \<rparr>
      in case l2_easyLists env this a of
           (easyDeposits, easyRedeems, easyDepositETH) \<Rightarrow>
             (let chk = checkEasyArgs env this a easyDeposits easyRedeems easyDepositETH
              in case (if isEasy chk then txn chk else None) of
                   Some t \<Rightarrow> t
                 | None \<Rightarrow> l2_compositeTxn env this (castArgs chk) tokenArgs))"

text \<open>
  \<open>buildBridgeTokenTransaction\<close>.  The token arguments are resolved in the declaration
  that opens the function, before the destination address is looked at; an \<open>undefined\<close>
  transaction has no \<open>then\<close>.
\<close>

definition buildBridgeTokenTransaction ::
  "Env \<Rightarrow> SynapseBridge \<Rightarrow> BridgeTransactionParams \<Rightarrow> error + PopulatedTransaction" where
  "buildBridgeTokenTransaction env this a =
     (case makeBridgeTokenArgs env this a of
        Inl e \<Rightarrow> Inl e
      | Inr tokenArgs \<Rightarrow>
          if addressTo a = None \<or> addressTo a = Some '''' then Inl EmptyDestinationAddress
          else
            (let a' = a \<lparr> tokenFrom := ta_tokenFrom tokenArgs, tokenTo := ta_tokenTo tokenArgs \<rparr>;
                 newTxn = (if bridge_chainId this = ChainId_ETH (ChainIds env)
                           then buildETHMainnetBridgeTxn env this a' tokenArgs
                           else Some (buildL2BridgeTxn env this a' tokenArgs))
             in case newTxn of
                  None \<Rightarrow> Inl TypeError
                | Some t \<Rightarrow> GasUtils_populateGasParams env (bridge_chainId this) t))"

section \<open>bridge.ts: executing a bridge transaction\<close>

text \<open>
  \<open>checkCanBridge\<close>: the balance request is issued first, the allowance request second;
  the allowance is awaited first.  The result is the pair \<open>(canBridge, err)\<close>.  The
  promise of the balance request gets its first handler when the callback on the
  allowance returns it: a balance rejection that arrives before the allowance is
  answered (\<open>balanceSettlesFirst\<close>) is an unhandled rejection.  (A balance rejection
  that arrives after the call has been settled by the allowance alone is unhandled as
  well; the outcome given is that of the call.)
\<close>

definition checkCanBridge ::
  "Env \<Rightarrow> SynapseBridge \<Rightarrow> string \<Rightarrow> Token \<Rightarrow> int \<Rightarrow> call list \<times> (error + bool \<times> error option)" where
  "checkCanBridge env this addr token amount =
     (let tokenAddress = address token (bridge_chainId this);
          qBalance = Call_balanceOf addr tokenAddress (bridge_chainId this);
          qAllowance = Call_allowanceOf addr (zapBridgeAddress this) tokenAddress
                         (bridge_chainId this)
      in ([qBalance, qAllowance],
          (case unhandled_rejection env (balanceSettlesFirst env) qBalance of
             Some e \<Rightarrow> Inl (UnhandledRejection e)
           | None \<Rightarrow>
               (case await_call env qAllowance of
                  Inl e \<Rightarrow> Inl e
                | Inr allowance \<Rightarrow>
                    if allowance < amount then Inr (False, Some (CannotBridge ''allowance''))
                    else
                      (case await_call env qBalance of
                         Inl e \<Rightarrow> Inl e
                       | Inr balance \<Rightarrow>
                           if \<not> (balance \<ge> amount)
                           then Inr (False, Some (CannotBridge ''balance''))
                           else Inr (True, None))))))"

text \<open>
  \<open>executeBridgeTokenTransaction\<close>: the eligibility check, then the signer's address,
  the balance and allowance checks, the building of the transaction and its sending.
  A rejection with the \<open>null\<close> error of a successful check cannot occur; it is kept as
  \<open>TypeError\<close>.
\<close>

definition executeBridgeTokenTransaction ::
  "Env \<Rightarrow> SynapseBridge \<Rightarrow> BridgeTransactionParams \<Rightarrow> Signer \<Rightarrow> call list \<times> (error + string)" where
  "executeBridgeTokenTransaction env this a signer =
     (case checkSwapSupported env this a of
        Inl e \<Rightarrow> ([], Inl e)
      | Inr _ \<Rightarrow>
          (case getAddress signer of
             Inl e \<Rightarrow> ([Call_getAddress], Inl e)
           | Inr signerAddress \<Rightarrow>
               (let a' = a \<lparr> addressTo :=
                            (case addressTo a of None \<Rightarrow> Some signerAddress | Some x \<Rightarrow> Some x) \<rparr>
                in case checkCanBridge env this signerAddress (tokenFrom a) (amountFrom a) of
                     (qs, Inl e) \<Rightarrow> (Call_getAddress # qs, Inl e)
                   | (qs, Inr (canBridge, err)) \<Rightarrow>
                       if \<not> canBridge then
                         (Call_getAddress # qs,
                          Inl (case err of None \<Rightarrow> TypeError | Some e \<Rightarrow> e))
                       else
                         (case buildBridgeTokenTransaction env this a' of
                            Inl e \<Rightarrow> (Call_getAddress # qs, Inl e)
                          | Inr t \<Rightarrow>
                              (Call_getAddress # qs @ [Call_sendTransaction t],
                               sendTransaction signer t)))))"

text \<open>
  The public EVM chain ids of the eleven chains, used for the concrete instances below.
\<close>

definition reference_ChainId :: ChainId where
  "reference_ChainId =
     \<lparr> ChainId_ETH = 1, ChainId_OPTIMISM = 10, ChainId_BSC = 56, ChainId_POLYGON = 137,
       ChainId_FANTOM = 250, ChainId_BOBA = 288, ChainId_MOONBEAM = 1284,
       ChainId_MOONRIVER = 1285, ChainId_ARBITRUM = 42161, ChainId_AVALANCHE = 43114,
       ChainId_HARMONY = 1666600000 \<rparr>"

section \<open>A reference deployment for concrete instances\<close>

text \<open>
  A small catalogue and environment on which the definitions above are evaluated.
  Every token has 18 decimals and its id as address on every chain; \<open>WAVAX\<close> and
  \<open>WMOVR\<close> are the wrapped tokens.
\<close>

definition plain_token :: "string \<Rightarrow> SwapType \<Rightarrow> Token" where
  "plain_token n st = Token n n st (\<lambda>c. Some n) (\<lambda>c. Some 18) (\<lambda>c. None) False None"

definition wrapped_token :: "string \<Rightarrow> SwapType \<Rightarrow> Token \<Rightarrow> Token" where
  "wrapped_token n st u = Token n n st (\<lambda>c. Some n) (\<lambda>c. Some 18) (\<lambda>c. None) True (Some u)"

definition USD :: SwapType where
  "USD = SwapType_other ''USD''"

definition USDC :: Token where
  "USDC = plain_token ''USDC'' USD"

definition reference_Tokens :: TokensCatalog where
  "reference_Tokens =
     \<lparr> Tokens_NUSD = plain_token ''NUSD'' USD,
       Tokens_SYN = plain_token ''SYN'' (SwapType_other ''SYN''),
       Tokens_HIGH = plain_token ''HIGH'' (SwapType_other ''HIGH''),
       Tokens_DOG = plain_token ''DOG'' (SwapType_other ''DOG''),
       Tokens_FRAX = plain_token ''FRAX'' (SwapType_other ''FRAX''),
       Tokens_NETH = plain_token ''NETH'' SwapType_ETH,
       Tokens_GMX = plain_token ''GMX'' (SwapType_other ''GMX''),
       Tokens_ETH = plain_token ''ETH'' SwapType_ETH,
       Tokens_WETH = plain_token ''WETH'' SwapType_ETH,
       Tokens_WETH_E = plain_token ''WETH_E'' SwapType_ETH,
       Tokens_AVWETH = plain_token ''AVWETH'' SwapType_ETH,
       Tokens_AVAX = plain_token ''AVAX'' SwapType_AVAX,
       Tokens_WAVAX = wrapped_token ''WAVAX'' SwapType_AVAX (plain_token ''AVAX'' SwapType_AVAX),
       Tokens_MOVR = plain_token ''MOVR'' SwapType_MOVR,
       Tokens_WMOVR = wrapped_token ''WMOVR'' SwapType_MOVR (plain_token ''MOVR'' SwapType_MOVR) \<rparr>"

text \<open>
  Pool token lists: the stable pool on the four chains 1, 56, 42161 and 43114, the
  native-gas pool on 1, 42161 and 43114, a one-token list for \<open>SYN\<close> everywhere.
\<close>

definition reference_pools :: "int \<Rightarrow> SwapType \<Rightarrow> Token list option" where
  "reference_pools c st =
     (if st = USD \<and> c \<in> set [1, 56, 42161, 43114]
        then Some [Tokens_NUSD reference_Tokens, USDC]
      else if st = SwapType_ETH \<and> c = 1 then Some [Tokens_WETH reference_Tokens]
      else if st = SwapType_ETH \<and> c = 42161
        then Some [Tokens_NETH reference_Tokens, Tokens_WETH reference_Tokens]
      else if st = SwapType_ETH \<and> c = 43114
        then Some [Tokens_NETH reference_Tokens, Tokens_AVWETH reference_Tokens]
      else if st = SwapType_other ''SYN'' then Some [Tokens_SYN reference_Tokens]
      else None)"

definition reference_Slippages :: "int \<Rightarrow> int \<Rightarrow> Slippages" where
  "reference_Slippages amtFrom amtTo =
     \<lparr> transactionDeadline = 600,
       bridgeTransactionDeadline = 86400,
       minToSwapDestFromOrigin = amtTo * 99 div 100,
       minToSwapDest = amtTo * 99 div 100,
       minToSwapOriginMediumSlippage = amtFrom * 97 div 100,
       minToSwapDestFromOriginMediumSlippage = amtTo * 97 div 100,
       minToSwapOriginHighSlippage = amtFrom * 95 div 100,
       minToSwapDestFromOriginHighSlippage = amtTo * 95 div 100 \<rparr>"

text \<open>
  In the reference environment a route is supported when both tokens have the same
  swap type; the fee oracle answers 5, every liquidity or swap query returns the amount
  it is asked about, balances and allowances are 1000; the fee request and the balance
  request are answered after the request they are in flight with.
\<close>

definition reference_respond :: "call \<Rightarrow> error + nat" where
  "reference_respond q =
     (case q of
        Call_calculateSwapFee _ _ _ \<Rightarrow> Inr 5
      | Call_calculateTokenAmount xs _ \<Rightarrow> Inr (nat (sum_list xs))
      | Call_calculateSwapL2Zap _ _ _ _ x \<Rightarrow> Inr (nat x)
      | Call_calculateRemoveLiquidityOneToken _ x _ \<Rightarrow> Inr (nat x)
      | Call_getAddress \<Rightarrow> Inl (CallFailed ''not a query'')
      | Call_balanceOf _ _ _ \<Rightarrow> Inr 1000
      | Call_allowanceOf _ _ _ _ \<Rightarrow> Inr 1000
      | Call_sendTransaction _ \<Rightarrow> Inl (CallFailed ''not a query''))"

definition reference_Env :: Env where
  "reference_Env =
     \<lparr> ChainIds = reference_ChainId,
       Tokens = reference_Tokens,
       Tokens_isMintBurnToken = (\<lambda>t. token_id t \<in> set [''SYN'', ''HIGH'', ''DOG'', ''FRAX'', ''GMX'']),
       BridgeUtils_isL2ETHChain = (\<lambda>c. c \<in> set [10, 288, 42161]),
       BridgeUtils_isETHLikeToken = (\<lambda>t. token_id t \<in> set [''WETH_E'']),
       BridgeUtils_DepositIfChainTokens =
         [\<lparr> dic_chainId = 43114, dic_tokens = [Tokens_WAVAX reference_Tokens],
            depositEth = True, altChainId = Some 1284 \<rparr>,
          \<lparr> dic_chainId = 42161, dic_tokens = [Tokens_GMX reference_Tokens],
            depositEth = False, altChainId = None \<rparr>],
       BridgeUtils_makeEasyParams =
         (\<lambda>a c t. [ArgString (addressTo a), ArgNumber (chainIdTo a),
                   ArgString (address t c), ArgNumber (amountFrom a)]),
       BridgeUtils_makeEasySubParams =
         (\<lambda>a c t. [ArgString (addressTo a), ArgNumber (chainIdTo a), ArgString (address t c)]),
       BridgeUtils_depositETHParams =
         (\<lambda>a. [ArgString (addressTo a), ArgNumber (chainIdTo a), ArgNumber (amountFrom a)]),
       BridgeUtils_makeOverrides = (\<lambda>amt b. if b then Some amt else None),
       BridgeUtils_getSlippages = reference_Slippages,
       SwapPools_bridgeSwappableTypePoolsByChain = reference_pools,
       SwapPools_getAllSwappableTokensForNetwork =
         (\<lambda>c. if c \<in> set [1, 56, 42161, 43114] then [Tokens_NUSD reference_Tokens, USDC] else []),
       TokenSwap_bridgeSwapSupported =
         (\<lambda>tf tt cTo cFrom. if swapType tf = swapType tt then (True, None)
                             else (False, Some ''tokens are not in a common pool'')),
       TokenSwap_intermediateTokens =
         (\<lambda>c t. if swapType t = SwapType_ETH
                 then (Tokens_NETH reference_Tokens, Tokens_NETH reference_Tokens)
                 else (Tokens_NUSD reference_Tokens, Tokens_NUSD reference_Tokens)),
       GasUtils_populateGasParams = (\<lambda>c t. Inr t),
       SynapseEntities_zapBridgeAddress = (\<lambda>c. ''zap''),
       respond = reference_respond,
       feeSettlesFirst = False,
       balanceSettlesFirst = False \<rparr>"

text \<open>The bridges bound to Ethereum mainnet, Arbitrum and Avalanche.\<close>

definition bridge_on :: "int \<Rightarrow> string \<Rightarrow> SynapseBridge" where
  "bridge_on c cur =
     \<lparr> network = new_Network (SwapPools_getAllSwappableTokensForNetwork reference_Env)
                   cur None c cur,
       bridge_chainId = c,
       requiredConfirmations = getRequiredConfirmationsForBridge reference_ChainId (Inr c),
       isL2Zap = (c \<noteq> 1),
       isL2ETHChain = BridgeUtils_isL2ETHChain reference_Env c,
       zapBridgeAddress = ''zap'' \<rparr>"

definition estimate_request :: "Token \<Rightarrow> Token \<Rightarrow> int \<Rightarrow> int option \<Rightarrow> int option BridgeParams" where
  "estimate_request tf tt c amt =
     \<lparr> tokenFrom = tf, tokenTo = tt, chainIdTo = c, amountFrom = amt \<rparr>"

definition build_request ::
  "Token \<Rightarrow> Token \<Rightarrow> int \<Rightarrow> int \<Rightarrow> int \<Rightarrow> string option \<Rightarrow> BridgeTransactionParams" where
  "build_request tf tt c amtFrom amtTo addr =
     \<lparr> tokenFrom = tf, tokenTo = tt, chainIdTo = c, amountFrom = amtFrom,
       amountTo = amtTo, addressTo = addr \<rparr>"

text \<open>
  The reference network with a fee oracle that rejects every request; every other
  query is answered as before.
\<close>

definition failing_fee_respond :: "call \<Rightarrow> error + nat" where
  "failing_fee_respond q =
     (case q of
        Call_calculateSwapFee _ _ _ \<Rightarrow> Inl (CallFailed ''fee oracle unreachable'')
      | _ \<Rightarrow> reference_respond q)"

section \<open>Properties of the static tables\<close>

lemma object_get_absent:
  "k \<notin> fst ` set entries \<Longrightarrow> object_get entries k = None"
  by (simp add: object_get_def map_of_eq_None_iff)

lemma object_get_distinct:
  "distinct (map fst entries) \<Longrightarrow> (k, v) \<in> set entries \<Longrightarrow> object_get entries k = Some v"
  by (simp add: object_get_def rev_map [symmetric])

text \<open>
  C9.  For the canonical chain (Ethereum mainnet) the required-confirmation count is the
  fixed positive integer 7, and for a chain that has no entry in the static per-chain
  table the lookup returns the sentinel \<open>-1\<close> instead of failing.  The members of the
  chain-id enum are taken to be pairwise distinct; the argument may be a network
  instance or a bare chain id.
\<close>

theorem requiredConfirmations_canonical_and_unknown:
  assumes "distinct (map fst (REQUIRED_CONFS C))"
    and "cid = (case nw of Inl n \<Rightarrow> chainId n | Inr c \<Rightarrow> c)"
  shows "(cid = ChainId_ETH C \<longrightarrow> getRequiredConfirmationsForBridge C nw = 7)
       \<and> (cid \<notin> fst ` set (REQUIRED_CONFS C) \<longrightarrow>
            getRequiredConfirmationsForBridge C nw = - 1)"
proof -
  have eth: "object_get (REQUIRED_CONFS C) (ChainId_ETH C) = Some 7"
    by (rule object_get_distinct [OF assms(1)]) (simp add: REQUIRED_CONFS_def)
  show ?thesis
    using assms(2) eth
    by (simp add: getRequiredConfirmationsForBridge_def object_get_absent)
qed

theorem requiredConfirmations_canonical_and_unknown_witness:
  "distinct (map fst (REQUIRED_CONFS reference_ChainId))
   \<and> getRequiredConfirmationsForBridge reference_ChainId (Inr 1) = 7
   \<and> (999::int) \<notin> fst ` set (REQUIRED_CONFS reference_ChainId)
   \<and> getRequiredConfirmationsForBridge reference_ChainId (Inr 999) = - 1"
proof -
  have d: "distinct (map fst (REQUIRED_CONFS reference_ChainId))"
    by (simp add: REQUIRED_CONFS_def reference_ChainId_def)
  have a: "(999::int) \<notin> fst ` set (REQUIRED_CONFS reference_ChainId)"
    by (simp add: REQUIRED_CONFS_def reference_ChainId_def)
  have e: "ChainId_ETH reference_ChainId = 1"
    by (simp add: reference_ChainId_def)
  from requiredConfirmations_canonical_and_unknown [OF d, of 1 "Inr 1"]
       requiredConfirmations_canonical_and_unknown [OF d, of 999 "Inr 999"] d a e
  show ?thesis by simp
qed

text \<open>
  C10.  For a token whose symbol is \<open>ETH\<close>, \<open>supportsToken\<close> is true on the Ethereum,
  Boba and Arbitrum networks whatever the network's token-address list holds; on every
  other network the result is exactly the membership of the token's address for that
  chain in the list.
\<close>

theorem supportsToken_ETH_symbol:
  assumes "symbol token = ''ETH''"
  shows "(chainId net \<in> {ChainId_ETH C, ChainId_BOBA C, ChainId_ARBITRUM C} \<longrightarrow>
            supportsToken C net token)
       \<and> (chainId net \<notin> {ChainId_ETH C, ChainId_BOBA C, ChainId_ARBITRUM C} \<longrightarrow>
            supportsToken C net token
              = (address token (chainId net) \<in> set (tokenAddresses net)))"
  using assms by (auto simp: supportsToken_def ETH_TOKEN_CHAINS_def)

theorem supportsToken_ETH_symbol_witness:
  "symbol (plain_token ''ETH'' SwapType_ETH) = ''ETH''
   \<and> supportsToken reference_ChainId (network (bridge_on 42161 ''ETH''))
         (plain_token ''ETH'' SwapType_ETH)
   \<and> chainId (network (bridge_on 56 ''BNB'')) \<notin> {1, 288, 42161}
   \<and> \<not> supportsToken reference_ChainId (network (bridge_on 56 ''BNB''))
           (plain_token ''ETH'' SwapType_ETH)"
proof -
  have s: "symbol (plain_token ''ETH'' SwapType_ETH) = ''ETH''"
    by (simp add: plain_token_def)
  have ids: "ChainId_ETH reference_ChainId = 1" "ChainId_BOBA reference_ChainId = 288"
    "ChainId_ARBITRUM reference_ChainId = 42161"
    by (simp_all add: reference_ChainId_def)
  have c1: "chainId (network (bridge_on 42161 ''ETH'')) = 42161"
    and c2: "chainId (network (bridge_on 56 ''BNB'')) = 56"
    by (simp_all add: bridge_on_def new_Network_def Let_def)
  have l: "tokenAddresses (network (bridge_on 56 ''BNB'')) = [Some ''NUSD'', Some ''USDC'']"
    by (simp add: bridge_on_def new_Network_def reference_Env_def reference_Tokens_def
          USDC_def plain_token_def Let_def)
  have a: "address (plain_token ''ETH'' SwapType_ETH) 56 = Some ''ETH''"
    by (simp add: plain_token_def)
  from supportsToken_ETH_symbol [OF s, of "network (bridge_on 42161 ''ETH'')" reference_ChainId]
       supportsToken_ETH_symbol [OF s, of "network (bridge_on 56 ''BNB'')" reference_ChainId]
  show ?thesis
    by (simp add: s ids c1 c2 l a)
qed

section \<open>Eligibility\<close>

text \<open>
  None of the functions that build a transaction reads the eligibility rule of the
  environment.
\<close>

lemma makeTokenArgs_no_eligibility:
  "makeTokenArgs (env\<lparr>TokenSwap_bridgeSwapSupported := f\<rparr>) c t = makeTokenArgs env c t"
  by (simp add: makeTokenArgs_def cong: option.case_cong)

lemma makeBridgeTokenArgs_no_eligibility:
  "makeBridgeTokenArgs (env\<lparr>TokenSwap_bridgeSwapSupported := f\<rparr>) this a
     = makeBridgeTokenArgs env this a"
  by (simp add: makeBridgeTokenArgs_def makeTokenArgs_no_eligibility
        cong: sum.case_cong prod.case_cong)

lemma checkEasyArgs_no_eligibility:
  "checkEasyArgs (env\<lparr>TokenSwap_bridgeSwapSupported := f\<rparr>) this a d r e
     = checkEasyArgs env this a d r e"
  by (simp add: checkEasyArgs_def Let_def cong: if_cong)

lemma buildETHMainnetBridgeTxn_no_eligibility:
  "buildETHMainnetBridgeTxn (env\<lparr>TokenSwap_bridgeSwapSupported := f\<rparr>) this a ta
     = buildETHMainnetBridgeTxn env this a ta"
  by (simp add: buildETHMainnetBridgeTxn_def checkEasyArgs_no_eligibility mainnet_easyDeposits_def
        mainnet_easyRedeems_def mainnet_easyDepositETH_def Let_def cong: if_cong)

lemma l2_compositeTxn_no_eligibility:
  "l2_compositeTxn (env\<lparr>TokenSwap_bridgeSwapSupported := f\<rparr>) this a ta
     = l2_compositeTxn env this a ta"
  by (simp add: l2_compositeTxn_def easyRedeemAndSwap_def easySwapAndRedeemAndSwap_def Let_def
        cong: if_cong)

lemma buildL2BridgeTxn_no_eligibility:
  "buildL2BridgeTxn (env\<lparr>TokenSwap_bridgeSwapSupported := f\<rparr>) this a ta
     = buildL2BridgeTxn env this a ta"
  by (simp add: buildL2BridgeTxn_def l2_easyLists_def checkEasyArgs_no_eligibility
        l2_compositeTxn_no_eligibility Let_def
        cong: if_cong option.case_cong sum.case_cong prod.case_cong)

lemma buildBridgeTokenTransaction_no_eligibility:
  "buildBridgeTokenTransaction (env\<lparr>TokenSwap_bridgeSwapSupported := f\<rparr>) this a
     = buildBridgeTokenTransaction env this a"
  by (simp add: buildBridgeTokenTransaction_def makeBridgeTokenArgs_no_eligibility
        buildETHMainnetBridgeTxn_no_eligibility buildL2BridgeTxn_no_eligibility Let_def
        cong: if_cong option.case_cong sum.case_cong prod.case_cong)

text \<open>
  C1, as amended.  When \<open>swapSupported\<close> answers \<open>(false, reason)\<close>, the output
  estimate is rejected with \<open>RouteUnsupported reason\<close> and no collaborator call is
  issued; the same holds for \<open>executeBridgeTokenTransaction\<close>, the entry point that runs
  the eligibility check before it builds.  \<open>buildBridgeTokenTransaction\<close> itself makes no
  eligibility check: its outcome is the same under every eligibility rule \<open>f\<close>.
\<close>

theorem unsupported_route_rejected_before_any_call:
  "(swapSupported env this a = (False, reason) \<longrightarrow>
      estimateBridgeTokenOutput env this a = ([], Inl (RouteUnsupported reason)))
   \<and> (swapSupported env this b = (False, reason') \<longrightarrow>
      executeBridgeTokenTransaction env this b signer = ([], Inl (RouteUnsupported reason')))
   \<and> buildBridgeTokenTransaction (env\<lparr>TokenSwap_bridgeSwapSupported := f\<rparr>) this b
       = buildBridgeTokenTransaction env this b"
  by (simp add: estimateBridgeTokenOutput_def executeBridgeTokenTransaction_def
        checkSwapSupported_def buildBridgeTokenTransaction_no_eligibility)

text \<open>
  C1 as stated fails for \<open>buildBridgeTokenTransaction\<close>: on Arbitrum, for the unsupported
  pair \<open>USDC\<close> to \<open>SYN\<close> with a destination address, a direct \<open>redeem\<close> is built.
\<close>

theorem build_unsupported_route_counterexample:
  "swapSupported reference_Env (bridge_on 42161 ''ETH'')
       (build_request USDC (Tokens_SYN reference_Tokens) 1 100 95 (Some ''0xabc''))
     = (False, ''tokens are not in a common pool'')
   \<and> buildBridgeTokenTransaction reference_Env (bridge_on 42161 ''ETH'')
       (build_request USDC (Tokens_SYN reference_Tokens) 1 100 95 (Some ''0xabc''))
     = Inr \<lparr> contract = ZapBridge, txn_method = redeem,
             args = [ArgString (Some ''0xabc''), ArgNumber 1, ArgString (Some ''SYN''),
                     ArgNumber 100],
             txn_value = None \<rparr>"
  by code_simp

theorem unsupported_route_rejected_before_any_call_witness:
  "swapSupported reference_Env (bridge_on 42161 ''ETH'')
       (estimate_request USDC (Tokens_SYN reference_Tokens) 1 (Some 100))
     = (False, ''tokens are not in a common pool'')
   \<and> estimateBridgeTokenOutput reference_Env (bridge_on 42161 ''ETH'')
       (estimate_request USDC (Tokens_SYN reference_Tokens) 1 (Some 100))
     = ([], Inl (RouteUnsupported ''tokens are not in a common pool''))"
proof -
  have h: "swapSupported reference_Env (bridge_on 42161 ''ETH'')
       (estimate_request USDC (Tokens_SYN reference_Tokens) 1 (Some 100))
     = (False, ''tokens are not in a common pool'')"
    by code_simp
  from unsupported_route_rejected_before_any_call
         [of reference_Env "bridge_on 42161 ''ETH''"
             "estimate_request USDC (Tokens_SYN reference_Tokens) 1 (Some 100)"
             "''tokens are not in a common pool''"] h
  show ?thesis by blast
qed

section \<open>The output estimate\<close>

lemmas resolution_defs =
  makeBridgeTokenArgs_def makeTokenArgs_def bridgeTokens_def checkAndChangeTokens_def
  checkAndChangeToken_def findSymbol_def isEqual_def

lemmas reference_defs =
  reference_Env_def reference_Tokens_def reference_pools_def reference_ChainId_def
  bridge_on_def estimate_request_def build_request_def USDC_def USD_def plain_token_def
  wrapped_token_def

lemma estimate_supported:
  "checkSwapSupported env this a = Inr ok \<Longrightarrow>
   estimateBridgeTokenOutput env this a = calculateBridgeRate env this a"
  by (simp add: estimateBridgeTokenOutput_def)

lemma await_call_Inl:
  "respond env q = Inl e \<Longrightarrow> await_call env q = Inl e"
  by (simp add: await_call_def)

lemma await_call_Inr:
  "respond env q = Inr n \<Longrightarrow> await_call env q = Inr (int n)"
  by (simp add: await_call_def)

text \<open>
  What a rejected fee request does to the estimate of a supported request whose token
  arguments resolve.  The fee request and the origin-side queries \<open>qs\<close> are the only
  calls issued.  Where an origin-side query is awaited and the fee rejection arrives
  first, the rejection is unhandled.  Otherwise a rejection of the origin-side query is
  passed on, and else the estimate resolves to \<open>null\<close>.
\<close>

lemma fee_query_failure_outcome:
  assumes "checkSwapSupported env this a = Inr ok"
    and "makeBridgeTokenArgs env this a = Inr ta"
    and "TokenSwap_intermediateTokens env (chainIdTo a) (ta_tokenFrom ta) = (itok, ctok)"
    and "feeRequestAmount (amountFrom a) (decimals (ta_tokenFrom ta) (bridge_chainId this))
           = Inr (amt, scaled)"
    and "respond env (Call_calculateSwapFee (address ctok (chainIdTo a)) (chainIdTo a) scaled)
           = Inl e"
    and "amountToReceive_from env this ta itok (ethToEth_of env this (chainIdTo a) ta) amt
           = (qs, r)"
  shows "estimateBridgeTokenOutput env this a
           = (Call_calculateSwapFee (address ctok (chainIdTo a)) (chainIdTo a) scaled # qs,
              (if qs \<noteq> [] \<and> feeSettlesFirst env then Inl (UnhandledRejection e)
               else (case r of Inl e' \<Rightarrow> Inl e' | Inr x \<Rightarrow> Inr None)))"
proof -
  have "calculateBridgeRate env this a
          = (Call_calculateSwapFee (address ctok (chainIdTo a)) (chainIdTo a) scaled # qs,
             (if qs \<noteq> [] \<and> feeSettlesFirst env then Inl (UnhandledRejection e)
              else (case r of Inl e' \<Rightarrow> Inl e' | Inr x \<Rightarrow> Inr None)))"
    using assms(2-6)
    by (cases r)
       (simp_all add: calculateBridgeRate_def Let_def await_call_Inl unhandled_rejection_def)
  with estimate_supported [OF assms(1)] show ?thesis by simp
qed

text \<open>
  C2.  The claim wants a rejected fee request surfaced as a typed \<open>FeeQueryFailed\<close>
  error.  The source does not do so.  For 100 \<open>USDC\<close> from Arbitrum to Ethereum with
  an unreachable fee oracle, the estimate issues the fee request and the origin-side
  swap query and then resolves to \<open>null\<close> when the fee rejection arrives after the swap
  query is answered, and ends in an unhandled rejection when it arrives before.  For
  100 \<open>SYN\<close>, where the origin-side amount awaits nothing, it resolves to \<open>null\<close> in
  either order.
\<close>

theorem fee_query_failure_evaluated:
  "estimateBridgeTokenOutput (reference_Env\<lparr>respond := failing_fee_respond\<rparr>)
       (bridge_on 42161 ''ETH'') (estimate_request USDC USDC 1 (Some 100))
     = ([Call_calculateSwapFee (Some ''NUSD'') 1 100,
         Call_calculateSwapL2Zap 42161 (Some ''NUSD'') 1 0 100],
        Inr None)
   \<and> estimateBridgeTokenOutput
       (reference_Env\<lparr>respond := failing_fee_respond, feeSettlesFirst := True\<rparr>)
       (bridge_on 42161 ''ETH'') (estimate_request USDC USDC 1 (Some 100))
     = ([Call_calculateSwapFee (Some ''NUSD'') 1 100,
         Call_calculateSwapL2Zap 42161 (Some ''NUSD'') 1 0 100],
        Inl (UnhandledRejection (CallFailed ''fee oracle unreachable'')))
   \<and> estimateBridgeTokenOutput
       (reference_Env\<lparr>respond := failing_fee_respond, feeSettlesFirst := True\<rparr>)
       (bridge_on 42161 ''ETH'')
       (estimate_request (Tokens_SYN reference_Tokens) (Tokens_SYN reference_Tokens) 1
          (Some 100))
     = ([Call_calculateSwapFee (Some ''NUSD'') 1 100], Inr None)"
  by code_simp

text \<open>
  C4.  For a supported request with \<open>amountFrom = 0\<close> whose token arguments resolve,
  the only call of the estimate is the fee request (no liquidity or swap query is
  issued), and when the fee oracle answers \<open>fee\<close> the estimate is
  \<open>{amountToReceive: 0, bridgeFee: fee}\<close>.
\<close>

theorem zero_amount_estimate:
  assumes "checkSwapSupported env this a = Inr ok"
    and "amountFrom a = Some 0"
    and "makeBridgeTokenArgs env this a = Inr ta"
    and "decimals (ta_tokenFrom ta) (bridge_chainId this) = Some d" and "d \<le> 18"
    and "TokenSwap_intermediateTokens env (chainIdTo a) (ta_tokenFrom ta) = (itok, ctok)"
    and "q = Call_calculateSwapFee (address ctok (chainIdTo a)) (chainIdTo a) 0"
  shows "fst (estimateBridgeTokenOutput env this a) = [q]
       \<and> (\<forall>fee. respond env q = Inr fee \<longrightarrow>
            snd (estimateBridgeTokenOutput env this a)
              = Inr (Some \<lparr> amountToReceive = 0, bridgeFee = int fee \<rparr>))"
proof -
  have amt: "feeRequestAmount (amountFrom a) (decimals (ta_tokenFrom ta) (bridge_chainId this))
               = Inr (0, 0)"
    using assms(2,4,5) by (simp add: feeRequestAmount_def)
  have origin: "amountToReceive_from env this ta itok (ethToEth_of env this (chainIdTo a) ta) 0
                  = ([], Inr 0)"
    by (simp add: amountToReceive_from_def)
  have dest: "amountToReceive_to env (chainIdTo a) ta itok (ethFromEth_of env this (chainIdTo a) ta) 0
                = ([], Inr 0)"
    by (simp add: amountToReceive_to_def)
  have rate: "calculateBridgeRate env this a
                = ([q], (case respond env q of
                           Inl e \<Rightarrow> Inr None
                         | Inr fee \<Rightarrow> Inr (Some \<lparr> amountToReceive = 0, bridgeFee = int fee \<rparr>)))"
  proof (cases "respond env q")
    case (Inl e)
    then show ?thesis
      using assms(3,6,7) amt origin
      by (simp add: calculateBridgeRate_def Let_def await_call_def)
  next
    case (Inr fee)
    have "subBigNumSafe 0 (int fee) = 0"
      by (simp add: subBigNumSafe_def)
    with Inr show ?thesis
      using assms(3,6,7) amt origin dest
      by (simp add: calculateBridgeRate_def Let_def await_call_def)
  qed
  show ?thesis
    using estimate_supported [OF assms(1)] rate by simp
qed

theorem zero_amount_estimate_witness:
  "checkSwapSupported reference_Env (bridge_on 42161 ''ETH'')
       (estimate_request USDC USDC 1 (Some 0)) = Inr True
   \<and> respond reference_Env (Call_calculateSwapFee (Some ''NUSD'') 1 0) = Inr 5
   \<and> estimateBridgeTokenOutput reference_Env (bridge_on 42161 ''ETH'')
       (estimate_request USDC USDC 1 (Some 0))
     = ([Call_calculateSwapFee (Some ''NUSD'') 1 0],
        Inr (Some \<lparr> amountToReceive = 0, bridgeFee = 5 \<rparr>))"
proof -
  let ?env = "reference_Env"
  let ?br = "bridge_on 42161 ''ETH''"
  let ?a = "estimate_request USDC USDC 1 (Some 0)"
  let ?ta = "\<lparr> fromChainTokens = [Tokens_NUSD reference_Tokens, USDC],
               toChainTokens = [Tokens_NUSD reference_Tokens, USDC],
               ta_tokenFrom = USDC, ta_tokenTo = USDC,
               tokenIndexFrom = 1, tokenIndexTo = 1 \<rparr>"
  have h1: "checkSwapSupported ?env ?br ?a = Inr True"
    by code_simp
  have h2: "amountFrom ?a = Some 0"
    by (simp add: estimate_request_def)
  have h3: "makeBridgeTokenArgs ?env ?br ?a = Inr ?ta"
    by (simp add: resolution_defs reference_defs)
  have h4: "decimals (ta_tokenFrom ?ta) (bridge_chainId ?br) = Some 18"
    by (simp add: USDC_def plain_token_def)
  have h6: "TokenSwap_intermediateTokens ?env (chainIdTo ?a) (ta_tokenFrom ?ta)
              = (Tokens_NUSD reference_Tokens, Tokens_NUSD reference_Tokens)"
    by (simp add: reference_Env_def USDC_def USD_def plain_token_def)
  have q: "Call_calculateSwapFee (Some ''NUSD'') 1 0
             = Call_calculateSwapFee (address (Tokens_NUSD reference_Tokens) (chainIdTo ?a))
                 (chainIdTo ?a) 0"
    by (simp add: reference_Tokens_def plain_token_def estimate_request_def)
  have r: "respond ?env (Call_calculateSwapFee (Some ''NUSD'') 1 0) = Inr 5"
    by (simp add: reference_Env_def reference_respond_def)
  from zero_amount_estimate [OF h1 h2 h3 h4 _ h6 q] r h1
  show ?thesis
    by (cases "estimateBridgeTokenOutput ?env ?br ?a") simp
qed

text \<open>
  C5.  When the tokens of both legs, as resolved by \<open>makeBridgeTokenArgs\<close>, are
  mint/burn tokens or wrapped tokens, the estimate of a supported request applies no
  pool mathematics: the only call is the fee request, and when the fee oracle answers
  \<open>fee\<close> the amount to receive is \<open>amountFrom - fee\<close> clamped at zero.
\<close>

theorem passthrough_estimate:
  assumes "checkSwapSupported env this a = Inr ok"
    and "amountFrom a = Some amt"
    and "makeBridgeTokenArgs env this a = Inr ta"
    and "decimals (ta_tokenFrom ta) (bridge_chainId this) = Some d" and "d \<le> 18"
    and "TokenSwap_intermediateTokens env (chainIdTo a) (ta_tokenFrom ta) = (itok, ctok)"
    and "Tokens_isMintBurnToken env (ta_tokenFrom ta) \<or> isWrappedToken (ta_tokenFrom ta)"
    and "Tokens_isMintBurnToken env (ta_tokenTo ta) \<or> isWrappedToken (ta_tokenTo ta)"
    and "q = Call_calculateSwapFee (address ctok (chainIdTo a)) (chainIdTo a)
               (amt * 10 ^ nat (18 - d))"
    and "respond env q = Inr fee"
  shows "estimateBridgeTokenOutput env this a
           = ([q], Inr (Some \<lparr> amountToReceive = max 0 (amt - int fee),
                                bridgeFee = int fee \<rparr>))"
proof -
  have scaled: "feeRequestAmount (amountFrom a)
                  (decimals (ta_tokenFrom ta) (bridge_chainId this))
                  = Inr (amt, amt * 10 ^ nat (18 - d))"
    using assms(2,4,5) by (simp add: feeRequestAmount_def)
  have origin: "amountToReceive_from env this ta itok (ethToEth_of env this (chainIdTo a) ta) amt
                  = ([], Inr amt)"
    using assms(7) by (auto simp: amountToReceive_from_def)
  have dest: "amountToReceive_to env (chainIdTo a) ta itok
                (ethFromEth_of env this (chainIdTo a) ta) (subBigNumSafe amt (int fee))
                = ([], Inr (subBigNumSafe amt (int fee)))"
    using assms(8) by (auto simp: amountToReceive_to_def)
  have clamp: "subBigNumSafe amt (int fee) = max 0 (amt - int fee)"
    by (simp add: subBigNumSafe_def max_def)
  have "calculateBridgeRate env this a
          = ([q], Inr (Some \<lparr> amountToReceive = max 0 (amt - int fee),
                               bridgeFee = int fee \<rparr>))"
    using assms(3,6,9) scaled origin dest await_call_Inr [OF assms(10)] clamp
    by (simp add: calculateBridgeRate_def Let_def)
  with estimate_supported [OF assms(1)] show ?thesis by simp
qed

theorem passthrough_estimate_witness:
  "checkSwapSupported reference_Env (bridge_on 42161 ''ETH'')
       (estimate_request (Tokens_SYN reference_Tokens) (Tokens_SYN reference_Tokens) 1
          (Some 100)) = Inr True
   \<and> Tokens_isMintBurnToken reference_Env (Tokens_SYN reference_Tokens)
   \<and> respond reference_Env (Call_calculateSwapFee (Some ''NUSD'') 1 100) = Inr 5
   \<and> estimateBridgeTokenOutput reference_Env (bridge_on 42161 ''ETH'')
       (estimate_request (Tokens_SYN reference_Tokens) (Tokens_SYN reference_Tokens) 1
          (Some 100))
     = ([Call_calculateSwapFee (Some ''NUSD'') 1 100],
        Inr (Some \<lparr> amountToReceive = 95, bridgeFee = 5 \<rparr>))"
proof -
  let ?env = "reference_Env"
  let ?br = "bridge_on 42161 ''ETH''"
  let ?syn = "Tokens_SYN reference_Tokens"
  let ?a = "estimate_request ?syn ?syn 1 (Some 100)"
  let ?ta = "\<lparr> fromChainTokens = [?syn], toChainTokens = [?syn],
               ta_tokenFrom = ?syn, ta_tokenTo = ?syn,
               tokenIndexFrom = 0, tokenIndexTo = 0 \<rparr>"
  have h1: "checkSwapSupported ?env ?br ?a = Inr True"
    by code_simp
  have h2: "amountFrom ?a = Some 100"
    by (simp add: estimate_request_def)
  have h3: "makeBridgeTokenArgs ?env ?br ?a = Inr ?ta"
    by (simp add: resolution_defs reference_defs)
  have h4: "decimals (ta_tokenFrom ?ta) (bridge_chainId ?br) = Some 18"
    by (simp add: reference_defs)
  have h6: "TokenSwap_intermediateTokens ?env (chainIdTo ?a) (ta_tokenFrom ?ta)
              = (Tokens_NUSD reference_Tokens, Tokens_NUSD reference_Tokens)"
    by (simp add: reference_defs)
  have h7: "Tokens_isMintBurnToken ?env (ta_tokenFrom ?ta) \<or> isWrappedToken (ta_tokenFrom ?ta)"
    and h8: "Tokens_isMintBurnToken ?env (ta_tokenTo ?ta) \<or> isWrappedToken (ta_tokenTo ?ta)"
    and mb: "Tokens_isMintBurnToken ?env ?syn"
    by (simp_all add: reference_defs)
  have q: "Call_calculateSwapFee (Some ''NUSD'') 1 100
             = Call_calculateSwapFee (address (Tokens_NUSD reference_Tokens) (chainIdTo ?a))
                 (chainIdTo ?a) (100 * 10 ^ nat (18 - 18))"
    by (simp add: reference_defs)
  have r: "respond ?env (Call_calculateSwapFee (Some ''NUSD'') 1 100) = Inr 5"
    by (simp add: reference_Env_def reference_respond_def)
  from passthrough_estimate [OF h1 h2 h3 h4 _ h6 h7 h8 q r] h1 mb r
  show ?thesis by simp
qed

section \<open>Building a transaction\<close>

text \<open>
  C3, as amended.  For a request whose destination address is empty or absent,
  \<open>buildBridgeTokenTransaction\<close> resolves the token arguments first (token resolution
  and pool indexing) and passes on their failure; when they resolve it fails with
  \<open>EmptyDestinationAddress\<close>, before any easy-route check, slippage computation or shape
  selection.  In no case is a transaction built.
\<close>

theorem empty_address_rejected_after_resolution:
  assumes "addressTo a = None \<or> addressTo a = Some ''''"
  shows "buildBridgeTokenTransaction env this a
           = (case makeBridgeTokenArgs env this a of
                Inl e \<Rightarrow> Inl e
              | Inr ta \<Rightarrow> Inl EmptyDestinationAddress)"
  using assms
  by (auto simp: buildBridgeTokenTransaction_def split: sum.splits)

text \<open>
  C3 as stated fails: with an absent destination address and a destination chain that
  has no pool for the token, the call is rejected by token resolution with a
  \<open>TypeError\<close>, not with \<open>EmptyDestinationAddress\<close>.
\<close>

theorem empty_address_counterexample:
  "addressTo (build_request USDC USDC 999 100 95 None) = None
   \<and> buildBridgeTokenTransaction reference_Env (bridge_on 42161 ''ETH'')
       (build_request USDC USDC 999 100 95 None) = Inl TypeError"
  by code_simp

theorem empty_address_rejected_after_resolution_witness:
  "addressTo (build_request USDC USDC 1 100 95 (Some '''')) = Some ''''
   \<and> buildBridgeTokenTransaction reference_Env (bridge_on 42161 ''ETH'')
       (build_request USDC USDC 1 100 95 (Some '''')) = Inl EmptyDestinationAddress"
proof -
  let ?a = "build_request USDC USDC 1 100 95 (Some '''')"
  have h: "addressTo ?a = None \<or> addressTo ?a = Some ''''"
    by (simp add: build_request_def)
  have r: "makeBridgeTokenArgs reference_Env (bridge_on 42161 ''ETH'') ?a
             = Inr \<lparr> fromChainTokens = [Tokens_NUSD reference_Tokens, USDC],
                     toChainTokens = [Tokens_NUSD reference_Tokens, USDC],
                     ta_tokenFrom = USDC, ta_tokenTo = USDC,
                     tokenIndexFrom = 1, tokenIndexTo = 1 \<rparr>"
    by (simp add: resolution_defs reference_defs)
  from empty_address_rejected_after_resolution
         [OF h, of reference_Env "bridge_on 42161 ''ETH''"] r
  show ?thesis by (simp add: build_request_def)
qed

lemma buildL2BridgeTxn_not_easy:
  assumes "l2_easyLists env this a = (eD, eR, eE)"
    and "token_id (tokenTo a) \<notin> set eD \<union> set eR \<union> set eE"
  shows "buildL2BridgeTxn env this a ta
           = l2_compositeTxn env this a
               (ta \<lparr> ta_tokenFrom :=
                  (if isEqual (ta_tokenFrom ta) (Tokens_AVWETH (Tokens env))
                   then Tokens_WETH_E (Tokens env) else ta_tokenFrom ta) \<rparr>)"
  using assms by (simp add: buildL2BridgeTxn_def checkEasyArgs_def Let_def)

lemma buildL2BridgeTxn_native_to_canonical:
  assumes "l2_easyLists env this a = (eD, eR, eE)"
    and "token_id (tokenTo a) \<notin> set eD \<union> set eR \<union> set eE"
    and "token_id (tokenTo a) \<noteq> token_id (Tokens_NUSD (Tokens env))"
    and "token_id (tokenTo a) \<noteq> token_id (Tokens_GMX (Tokens env))"
    and "chainIdTo a = ChainId_ETH (ChainIds env)"
    and "isL2ETHChain this"
  shows "(txn_method (buildL2BridgeTxn env this a ta) = redeem
            \<longleftrightarrow> isEqual (tokenFrom a) (Tokens_NETH (Tokens env)))
       \<and> (\<not> isEqual (tokenFrom a) (Tokens_NETH (Tokens env)) \<longrightarrow>
            txn_method (buildL2BridgeTxn env this a ta)
              = (if BridgeUtils_isETHLikeToken env (tokenFrom a)
                 then swapAndRedeem else swapETHAndRedeem))"
  using assms(3-6)
  by (simp add: buildL2BridgeTxn_not_easy [OF assms(1,2)] l2_compositeTxn_def Let_def
        populate_def)

lemma buildBridgeTokenTransaction_on_L2:
  assumes "bridge_chainId this \<noteq> ChainId_ETH (ChainIds env)"
    and "addressTo a = Some addr" and "addr \<noteq> ''''"
    and "makeBridgeTokenArgs env this a = Inr ta"
  shows "buildBridgeTokenTransaction env this a
           = GasUtils_populateGasParams env (bridge_chainId this)
               (buildL2BridgeTxn env this
                  (a \<lparr> tokenFrom := ta_tokenFrom ta, tokenTo := ta_tokenTo ta \<rparr>) ta)"
  using assms by (simp add: buildBridgeTokenTransaction_def Let_def)

text \<open>
  C6.  Take a bridge on a peripheral chain that is itself a native-gas-equivalent chain
  (\<open>isL2ETHChain\<close>) and a request to the canonical chain with a destination address,
  whose token arguments resolve to \<open>ta\<close> and whose resolved destination token passes
  the easy-route gate and is neither \<open>NUSD\<close> nor \<open>GMX\<close> (as the canonical chain's
  native-gas token is).  Where gas population succeeds and keeps the method,
  \<open>buildBridgeTokenTransaction\<close> returns a transaction whose shape is the direct \<open>redeem\<close>
  exactly when the resolved source token is \<open>NETH\<close>; for any other source token it is
  a swap-then-redeem shape: \<open>swapAndRedeem\<close> for the other native-gas-like tokens,
  \<open>swapETHAndRedeem\<close> otherwise.
\<close>

theorem native_to_canonical_shape:
  assumes "bridge_chainId this \<noteq> ChainId_ETH (ChainIds env)"
    and "isL2ETHChain this"
    and "chainIdTo a = ChainId_ETH (ChainIds env)"
    and "addressTo a = Some addr" and "addr \<noteq> ''''"
    and "makeBridgeTokenArgs env this a = Inr ta"
    and "l2_easyLists env this (a \<lparr> tokenFrom := ta_tokenFrom ta, tokenTo := ta_tokenTo ta \<rparr>)
           = (eD, eR, eE)"
    and "token_id (ta_tokenTo ta) \<notin> set eD \<union> set eR \<union> set eE"
    and "token_id (ta_tokenTo ta) \<noteq> token_id (Tokens_NUSD (Tokens env))"
    and "token_id (ta_tokenTo ta) \<noteq> token_id (Tokens_GMX (Tokens env))"
    and "\<And>t. \<exists>t'. GasUtils_populateGasParams env (bridge_chainId this) t = Inr t'
                   \<and> txn_method t' = txn_method t"
  shows "\<exists>t'. buildBridgeTokenTransaction env this a = Inr t'
            \<and> (txn_method t' = redeem
                  \<longleftrightarrow> isEqual (ta_tokenFrom ta) (Tokens_NETH (Tokens env)))
            \<and> (\<not> isEqual (ta_tokenFrom ta) (Tokens_NETH (Tokens env)) \<longrightarrow>
                  txn_method t'
                    = (if BridgeUtils_isETHLikeToken env (ta_tokenFrom ta)
                       then swapAndRedeem else swapETHAndRedeem))"
proof -
  let ?a' = "a \<lparr> tokenFrom := ta_tokenFrom ta, tokenTo := ta_tokenTo ta \<rparr>"
  let ?t = "buildL2BridgeTxn env this ?a' ta"
  have built: "buildBridgeTokenTransaction env this a
                 = GasUtils_populateGasParams env (bridge_chainId this) ?t"
    by (rule buildBridgeTokenTransaction_on_L2 [OF assms(1,4,5,6)])
  from assms(11) [of ?t] obtain t' where
    gas: "GasUtils_populateGasParams env (bridge_chainId this) ?t = Inr t'"
    and same: "txn_method t' = txn_method ?t"
    by blast
  have to: "token_id (tokenTo ?a') \<notin> set eD \<union> set eR \<union> set eE"
    and n1: "token_id (tokenTo ?a') \<noteq> token_id (Tokens_NUSD (Tokens env))"
    and n2: "token_id (tokenTo ?a') \<noteq> token_id (Tokens_GMX (Tokens env))"
    and ch: "chainIdTo ?a' = ChainId_ETH (ChainIds env)"
    using assms(3,8,9,10) by simp_all
  from buildL2BridgeTxn_native_to_canonical [OF assms(7) to n1 n2 ch assms(2), of ta]
  have "(txn_method t' = redeem \<longleftrightarrow> isEqual (ta_tokenFrom ta) (Tokens_NETH (Tokens env)))
      \<and> (\<not> isEqual (ta_tokenFrom ta) (Tokens_NETH (Tokens env)) \<longrightarrow>
            txn_method t' = (if BridgeUtils_isETHLikeToken env (ta_tokenFrom ta)
                             then swapAndRedeem else swapETHAndRedeem))"
    using same by simp
  with built gas show ?thesis by simp
qed

text \<open>
  On Arbitrum, to Ethereum: \<open>NETH\<close> is redeemed directly; \<open>WETH_E\<close> (native-gas-like) is
  swapped and redeemed; \<open>ETH\<close>, resolved to \<open>WETH\<close>, is swapped with its value attached
  and redeemed.
\<close>

theorem native_to_canonical_shape_witness:
  "isL2ETHChain (bridge_on 42161 ''ETH'')
   \<and> buildBridgeTokenTransaction reference_Env (bridge_on 42161 ''ETH'')
       (build_request (Tokens_NETH reference_Tokens) (Tokens_ETH reference_Tokens) 1 100 95
          (Some ''0xabc''))
     = Inr \<lparr> contract = ZapBridge, txn_method = redeem,
             args = [ArgString (Some ''0xabc''), ArgNumber 1, ArgString (Some ''NETH''),
                     ArgNumber 100],
             txn_value = None \<rparr>
   \<and> buildBridgeTokenTransaction reference_Env (bridge_on 42161 ''ETH'')
       (build_request (Tokens_WETH_E reference_Tokens) (Tokens_ETH reference_Tokens) 1 100 95
          (Some ''0xabc''))
     = Inr \<lparr> contract = ZapBridge, txn_method = swapAndRedeem,
             args = [ArgString (Some ''0xabc''), ArgNumber 1, ArgString (Some ''NETH''),
                     ArgNumber (- 1), ArgNumber 0, ArgNumber 100, ArgNumber 95,
                     ArgNumber 600],
             txn_value = None \<rparr>
   \<and> buildBridgeTokenTransaction reference_Env (bridge_on 42161 ''ETH'')
       (build_request (Tokens_ETH reference_Tokens) (Tokens_ETH reference_Tokens) 1 100 95
          (Some ''0xabc''))
     = Inr \<lparr> contract = ZapBridge, txn_method = swapETHAndRedeem,
             args = [ArgString (Some ''0xabc''), ArgNumber 1, ArgString (Some ''NETH''),
                     ArgNumber 1, ArgNumber 0, ArgNumber 100, ArgNumber 95,
                     ArgNumber 600],
             txn_value = Some 100 \<rparr>"
proof -
  let ?env = "reference_Env"
  let ?br = "bridge_on 42161 ''ETH''"
  let ?neth = "Tokens_NETH reference_Tokens"
  let ?weth = "Tokens_WETH reference_Tokens"
  let ?wethe = "Tokens_WETH_E reference_Tokens"
  let ?eth = "Tokens_ETH reference_Tokens"
  let ?a = "build_request ?neth ?eth 1 100 95 (Some ''0xabc'')"
  let ?b = "build_request ?wethe ?eth 1 100 95 (Some ''0xabc'')"
  let ?c = "build_request ?eth ?eth 1 100 95 (Some ''0xabc'')"
  let ?ta = "\<lparr> fromChainTokens = [?neth, ?weth], toChainTokens = [?weth],
               ta_tokenFrom = ?neth, ta_tokenTo = ?weth,
               tokenIndexFrom = 0, tokenIndexTo = 0 \<rparr>"
  let ?tb = "\<lparr> fromChainTokens = [?neth, ?weth], toChainTokens = [?weth],
               ta_tokenFrom = ?wethe, ta_tokenTo = ?weth,
               tokenIndexFrom = - 1, tokenIndexTo = 0 \<rparr>"
  let ?tc = "\<lparr> fromChainTokens = [?neth, ?weth], toChainTokens = [?weth],
               ta_tokenFrom = ?weth, ta_tokenTo = ?weth,
               tokenIndexFrom = 1, tokenIndexTo = 0 \<rparr>"
  let ?L = "([''GMX''], [''SYN'', ''HIGH'', ''DOG'', ''FRAX''], [])"
  have l2: "bridge_chainId ?br \<noteq> ChainId_ETH (ChainIds ?env)" "isL2ETHChain ?br"
    by (simp_all add: reference_defs)
  have ch: "chainIdTo ?a = ChainId_ETH (ChainIds ?env)"
    "chainIdTo ?b = ChainId_ETH (ChainIds ?env)" "chainIdTo ?c = ChainId_ETH (ChainIds ?env)"
    by (simp_all add: reference_defs)
  have ad: "addressTo ?a = Some ''0xabc''" "addressTo ?b = Some ''0xabc''"
    "addressTo ?c = Some ''0xabc''" "''0xabc'' \<noteq> ''''"
    by (simp_all add: reference_defs)
  have ra: "makeBridgeTokenArgs ?env ?br ?a = Inr ?ta"
    and rb: "makeBridgeTokenArgs ?env ?br ?b = Inr ?tb"
    and rc: "makeBridgeTokenArgs ?env ?br ?c = Inr ?tc"
    by (simp_all add: resolution_defs reference_defs)
  have la: "l2_easyLists ?env ?br (?a \<lparr> tokenFrom := ta_tokenFrom ?ta, tokenTo := ta_tokenTo ?ta \<rparr>)
              = ?L"
    and lb: "l2_easyLists ?env ?br (?b \<lparr> tokenFrom := ta_tokenFrom ?tb, tokenTo := ta_tokenTo ?tb \<rparr>)
              = ?L"
    and lc: "l2_easyLists ?env ?br (?c \<lparr> tokenFrom := ta_tokenFrom ?tc, tokenTo := ta_tokenTo ?tc \<rparr>)
              = ?L"
    by (simp_all add: l2_easyLists_def depositIfChainStep_def isEqual_def reference_defs)
  have ga: "token_id (ta_tokenTo ?ta) \<notin> set [''GMX''] \<union> set [''SYN'', ''HIGH'', ''DOG'', ''FRAX''] \<union> set []"
    "token_id (ta_tokenTo ?ta) \<noteq> token_id (Tokens_NUSD (Tokens ?env))"
    "token_id (ta_tokenTo ?ta) \<noteq> token_id (Tokens_GMX (Tokens ?env))"
    and gb: "token_id (ta_tokenTo ?tb) \<notin> set [''GMX''] \<union> set [''SYN'', ''HIGH'', ''DOG'', ''FRAX''] \<union> set []"
    "token_id (ta_tokenTo ?tb) \<noteq> token_id (Tokens_NUSD (Tokens ?env))"
    "token_id (ta_tokenTo ?tb) \<noteq> token_id (Tokens_GMX (Tokens ?env))"
    and gc: "token_id (ta_tokenTo ?tc) \<notin> set [''GMX''] \<union> set [''SYN'', ''HIGH'', ''DOG'', ''FRAX''] \<union> set []"
    "token_id (ta_tokenTo ?tc) \<noteq> token_id (Tokens_NUSD (Tokens ?env))"
    "token_id (ta_tokenTo ?tc) \<noteq> token_id (Tokens_GMX (Tokens ?env))"
    by (simp_all add: reference_defs)
  have gas: "\<exists>t'. GasUtils_populateGasParams ?env (bridge_chainId ?br) t = Inr t'
                  \<and> txn_method t' = txn_method t" for t
    by (simp add: reference_defs)
  have ea: "buildBridgeTokenTransaction ?env ?br ?a
              = Inr \<lparr> contract = ZapBridge, txn_method = redeem,
                      args = [ArgString (Some ''0xabc''), ArgNumber 1, ArgString (Some ''NETH''),
                              ArgNumber 100],
                      txn_value = None \<rparr>"
    and eb: "buildBridgeTokenTransaction ?env ?br ?b
              = Inr \<lparr> contract = ZapBridge, txn_method = swapAndRedeem,
                      args = [ArgString (Some ''0xabc''), ArgNumber 1, ArgString (Some ''NETH''),
                              ArgNumber (- 1), ArgNumber 0, ArgNumber 100, ArgNumber 95,
                              ArgNumber 600],
                      txn_value = None \<rparr>"
    and ec: "buildBridgeTokenTransaction ?env ?br ?c
              = Inr \<lparr> contract = ZapBridge, txn_method = swapETHAndRedeem,
                      args = [ArgString (Some ''0xabc''), ArgNumber 1, ArgString (Some ''NETH''),
                              ArgNumber 1, ArgNumber 0, ArgNumber 100, ArgNumber 95,
                              ArgNumber 600],
                      txn_value = Some 100 \<rparr>"
    by code_simp+
  have src: "isEqual (ta_tokenFrom ?ta) (Tokens_NETH (Tokens ?env))"
    "\<not> isEqual (ta_tokenFrom ?tb) (Tokens_NETH (Tokens ?env))"
    "BridgeUtils_isETHLikeToken ?env (ta_tokenFrom ?tb)"
    "\<not> isEqual (ta_tokenFrom ?tc) (Tokens_NETH (Tokens ?env))"
    "\<not> BridgeUtils_isETHLikeToken ?env (ta_tokenFrom ?tc)"
    by (simp_all add: isEqual_def reference_defs)
  from native_to_canonical_shape [OF l2 ch(1) ad(1,4) ra la ga gas]
       native_to_canonical_shape [OF l2 ch(2) ad(2,4) rb lb gb gas]
       native_to_canonical_shape [OF l2 ch(3) ad(3,4) rc lc gc gas]
       src ea eb ec l2
  show ?thesis by simp
qed

section \<open>The easy-route membership lists\<close>

lemma depositIfChainStep_membership:
  assumes "x \<notin> token_id ` set (dic_tokens d)"
    and "depositIfChainStep cid d (eD, eR, eE) = (eD', eR', eE')"
  shows "(x \<in> set eD' \<longleftrightarrow> x \<in> set eD) \<and> (x \<in> set eR' \<longleftrightarrow> x \<in> set eR)
       \<and> (x \<in> set eE' \<longleftrightarrow> x \<in> set eE)"
  using assms by (auto simp: depositIfChainStep_def Let_def split: if_splits)

lemma fold_depositIfChainStep_membership:
  assumes "x \<notin> token_id ` (\<Union>d \<in> set ds. set (dic_tokens d))"
    and "fold (depositIfChainStep cid) ds (eD, eR, eE) = (eD', eR', eE')"
  shows "(x \<in> set eD' \<longleftrightarrow> x \<in> set eD) \<and> (x \<in> set eR' \<longleftrightarrow> x \<in> set eR)
       \<and> (x \<in> set eE' \<longleftrightarrow> x \<in> set eE)"
  using assms
proof (induction ds arbitrary: eD eR eE)
  case Nil
  then show ?case by simp
next
  case (Cons d ds)
  obtain mD mR mE where step: "depositIfChainStep cid d (eD, eR, eE) = (mD, mR, mE)"
    by (cases "depositIfChainStep cid d (eD, eR, eE)") auto
  have xd: "x \<notin> token_id ` set (dic_tokens d)"
    and xds: "x \<notin> token_id ` (\<Union>d \<in> set ds. set (dic_tokens d))"
    using Cons.prems(1) by auto
  have rest: "fold (depositIfChainStep cid) ds (mD, mR, mE) = (eD', eR', eE')"
    using Cons.prems(2) step by simp
  from Cons.IH [OF xds rest] depositIfChainStep_membership [OF xd step]
  show ?case by simp
qed

text \<open>
  C7.  Let the id of \<open>NUSD\<close> differ from the ids of the tokens the lists start from
  (\<open>SYN\<close>, \<open>HIGH\<close>, \<open>DOG\<close>, \<open>FRAX\<close>, \<open>NETH\<close>) and from the ids of the tokens of
  \<open>DepositIfChainTokens\<close>.  Then \<open>NUSD\<close> is in the direct-deposit list of the canonical
  chain, and in the direct-redeem list of a peripheral chain, exactly when the source
  token is \<open>NUSD\<close>.  For a request with \<open>NUSD\<close> as destination token the easy-route gate
  therefore opens exactly when the source token is \<open>NUSD\<close> (a direct \<open>deposit\<close>, or a
  direct \<open>redeem\<close>); for any other source token the composite shape is built
  (\<open>zapAndDeposit\<close>, or \<open>swapAndRedeem\<close>).
\<close>

theorem nusd_direct_route_only_from_nusd:
  assumes "token_id (Tokens_NUSD (Tokens env))
             \<notin> set (map token_id [Tokens_SYN (Tokens env), Tokens_HIGH (Tokens env),
                   Tokens_DOG (Tokens env), Tokens_FRAX (Tokens env), Tokens_NETH (Tokens env)])"
    and "token_id (Tokens_NUSD (Tokens env))
           \<notin> token_id ` (\<Union>d \<in> set (BridgeUtils_DepositIfChainTokens env). set (dic_tokens d))"
    and "token_id (tokenTo a) = token_id (Tokens_NUSD (Tokens env))"
    and "l2_easyLists env this a = (eD, eR, eE)"
  shows "(token_id (Tokens_NUSD (Tokens env)) \<in> set (mainnet_easyDeposits env a)
            \<longleftrightarrow> isEqual (tokenFrom a) (Tokens_NUSD (Tokens env)))
       \<and> (token_id (Tokens_NUSD (Tokens env)) \<in> set eR
            \<longleftrightarrow> isEqual (tokenFrom a) (Tokens_NUSD (Tokens env)))
       \<and> (isEasy (checkEasyArgs env this a (mainnet_easyDeposits env a)
                    (mainnet_easyRedeems env) (mainnet_easyDepositETH env))
            \<longleftrightarrow> isEqual (tokenFrom a) (Tokens_NUSD (Tokens env)))
       \<and> (isEasy (checkEasyArgs env this a eD eR eE)
            \<longleftrightarrow> isEqual (tokenFrom a) (Tokens_NUSD (Tokens env)))
       \<and> map_option txn_method (buildETHMainnetBridgeTxn env this a ta)
           = Some (if isEqual (tokenFrom a) (Tokens_NUSD (Tokens env))
                   then deposit else zapAndDeposit)
       \<and> txn_method (buildL2BridgeTxn env this a ta)
           = (if isEqual (tokenFrom a) (Tokens_NUSD (Tokens env))
              then redeem else swapAndRedeem)"
proof -
  let ?nusd = "token_id (Tokens_NUSD (Tokens env))"
  let ?from_nusd = "isEqual (tokenFrom a) (Tokens_NUSD (Tokens env))"
  let ?start = "[token_id (Tokens_SYN (Tokens env)), token_id (Tokens_HIGH (Tokens env)),
                 token_id (Tokens_DOG (Tokens env)), token_id (Tokens_FRAX (Tokens env))]
                @ (if ?from_nusd then [?nusd] else [])"
  have fold: "fold (depositIfChainStep (bridge_chainId this))
                (BridgeUtils_DepositIfChainTokens env) ([], ?start, []) = (eD, eR, eE)"
    using assms(4) by (simp add: l2_easyLists_def)
  have mem: "(?nusd \<in> set eD \<longleftrightarrow> ?nusd \<in> set []) \<and> (?nusd \<in> set eR \<longleftrightarrow> ?nusd \<in> set ?start)
           \<and> (?nusd \<in> set eE \<longleftrightarrow> ?nusd \<in> set [])"
    by (rule fold_depositIfChainStep_membership [OF assms(2) fold])
  have eD: "?nusd \<notin> set eD" and eE: "?nusd \<notin> set eE"
    and eR: "?nusd \<in> set eR \<longleftrightarrow> ?from_nusd"
    using mem assms(1) by auto
  have main: "?nusd \<in> set (mainnet_easyDeposits env a) \<longleftrightarrow> ?from_nusd"
    using assms(1) by (auto simp: mainnet_easyDeposits_def)
  have mR: "?nusd \<notin> set (mainnet_easyRedeems env)"
    and mE: "?nusd \<notin> set (mainnet_easyDepositETH env)"
    using assms(1) by (auto simp: mainnet_easyRedeems_def mainnet_easyDepositETH_def)
  have gate1: "isEasy (checkEasyArgs env this a (mainnet_easyDeposits env a)
                 (mainnet_easyRedeems env) (mainnet_easyDepositETH env)) \<longleftrightarrow> ?from_nusd"
    using main mR mE assms(3) by (simp add: checkEasyArgs_def Let_def)
  have gate2: "isEasy (checkEasyArgs env this a eD eR eE) \<longleftrightarrow> ?from_nusd"
    using eD eE eR assms(3) by (simp add: checkEasyArgs_def Let_def)
  have shape1: "map_option txn_method (buildETHMainnetBridgeTxn env this a ta)
                  = Some (if ?from_nusd then deposit else zapAndDeposit)"
    using main mR mE assms(3)
    by (simp add: buildETHMainnetBridgeTxn_def checkEasyArgs_def Let_def populate_def)
  have shape2: "txn_method (buildL2BridgeTxn env this a ta)
                  = (if ?from_nusd then redeem else swapAndRedeem)"
    using eD eE eR assms(3,4)
    by (simp add: buildL2BridgeTxn_def checkEasyArgs_def l2_compositeTxn_def Let_def
          populate_def)
  from main eR gate1 gate2 shape1 shape2 show ?thesis by simp
qed

theorem nusd_direct_route_only_from_nusd_witness:
  "l2_easyLists reference_Env (bridge_on 42161 ''ETH'')
       (build_request USDC (Tokens_NUSD reference_Tokens) 1 100 95 (Some ''0xabc''))
     = ([''GMX''], [''SYN'', ''HIGH'', ''DOG'', ''FRAX''], [])
   \<and> \<not> isEqual USDC (Tokens_NUSD reference_Tokens)
   \<and> txn_method (buildL2BridgeTxn reference_Env (bridge_on 42161 ''ETH'')
       (build_request USDC (Tokens_NUSD reference_Tokens) 1 100 95 (Some ''0xabc''))
       \<lparr> fromChainTokens = [Tokens_NUSD reference_Tokens, USDC],
         toChainTokens = [Tokens_NUSD reference_Tokens, USDC],
         ta_tokenFrom = USDC, ta_tokenTo = Tokens_NUSD reference_Tokens,
         tokenIndexFrom = 1, tokenIndexTo = 0 \<rparr>) = swapAndRedeem
   \<and> l2_easyLists reference_Env (bridge_on 42161 ''ETH'')
       (build_request (Tokens_NUSD reference_Tokens) (Tokens_NUSD reference_Tokens) 1 100 95
          (Some ''0xabc''))
     = ([''GMX''], [''SYN'', ''HIGH'', ''DOG'', ''FRAX'', ''NUSD''], [])
   \<and> txn_method (buildL2BridgeTxn reference_Env (bridge_on 42161 ''ETH'')
       (build_request (Tokens_NUSD reference_Tokens) (Tokens_NUSD reference_Tokens) 1 100 95
          (Some ''0xabc''))
       \<lparr> fromChainTokens = [Tokens_NUSD reference_Tokens, USDC],
         toChainTokens = [Tokens_NUSD reference_Tokens, USDC],
         ta_tokenFrom = Tokens_NUSD reference_Tokens, ta_tokenTo = Tokens_NUSD reference_Tokens,
         tokenIndexFrom = 0, tokenIndexTo = 0 \<rparr>) = redeem"
proof -
  let ?env = "reference_Env"
  let ?br = "bridge_on 42161 ''ETH''"
  let ?nusd = "Tokens_NUSD reference_Tokens"
  let ?a = "build_request USDC ?nusd 1 100 95 (Some ''0xabc'')"
  let ?b = "build_request ?nusd ?nusd 1 100 95 (Some ''0xabc'')"
  have h1: "token_id (Tokens_NUSD (Tokens ?env))
              \<notin> set (map token_id [Tokens_SYN (Tokens ?env), Tokens_HIGH (Tokens ?env),
                    Tokens_DOG (Tokens ?env), Tokens_FRAX (Tokens ?env),
                    Tokens_NETH (Tokens ?env)])"
    by (simp add: reference_defs)
  have h2: "token_id (Tokens_NUSD (Tokens ?env))
              \<notin> token_id ` (\<Union>d \<in> set (BridgeUtils_DepositIfChainTokens ?env). set (dic_tokens d))"
    by (simp add: reference_defs)
  have a3: "token_id (tokenTo ?a) = token_id (Tokens_NUSD (Tokens ?env))"
    and b3: "token_id (tokenTo ?b) = token_id (Tokens_NUSD (Tokens ?env))"
    by (simp_all add: reference_defs)
  have a4: "l2_easyLists ?env ?br ?a = ([''GMX''], [''SYN'', ''HIGH'', ''DOG'', ''FRAX''], [])"
    and b4: "l2_easyLists ?env ?br ?b
               = ([''GMX''], [''SYN'', ''HIGH'', ''DOG'', ''FRAX'', ''NUSD''], [])"
    by (simp_all add: l2_easyLists_def depositIfChainStep_def isEqual_def reference_defs)
  have src: "\<not> isEqual USDC ?nusd"
    "\<not> isEqual (tokenFrom ?a) (Tokens_NUSD (Tokens ?env))"
    "isEqual (tokenFrom ?b) (Tokens_NUSD (Tokens ?env))"
    by (simp_all add: isEqual_def reference_defs)
  from nusd_direct_route_only_from_nusd [OF h1 h2 a3 a4]
       nusd_direct_route_only_from_nusd [OF h1 h2 b3 b4] src a4 b4
  show ?thesis by simp
qed

section \<open>Pool indices of aliased tokens\<close>




end
